theory Spec2Isabelle
  imports Main "HOL-Library.Word"
begin

unbundle bit_operations_syntax

section \<open>X11 event pump (src/video/x11/SDL_x11events.c)\<close>

subsection \<open>Data model\<close>

text \<open>
  Handles of the X server and of the portable core are opaque in the source and are only
  compared for equality; they are natural numbers here, with \<open>0\<close> for \<open>None\<close> and
  \<open>NULL\<close>. \<open>Time\<close> is Xlib's unsigned long: a natural number, with the width of
  unsigned long on the target a parameter of the driver state (\<open>ulong_bits\<close>, at least
  32) and the arithmetic on it written out modulo that width. The timestamps the server
  sends are the protocol's 32-bit values, so they lie below \<open>2^32\<close> whatever the width.
  \<open>Uint32\<close> is SDL's tick counter, which wraps around.
\<close>

type_synonym Window = nat
type_synonym Atom = nat
type_synonym XIC = nat
type_synonym SDL_Window = nat
type_synonym SDL_Scancode = nat
type_synonym Time = nat
type_synonym Uint32 = "32 word"

text \<open>The event type tag of \<open>XEvent.type\<close>; every tag the dispatcher does not name is \<open>OtherEvent\<close>.\<close>

datatype XEventType =
    KeyPress | KeyRelease | ButtonPress | ButtonRelease | MotionNotify
  | EnterNotify | LeaveNotify | FocusIn | FocusOut | KeymapNotify | Expose
  | UnmapNotify | MapNotify | ConfigureNotify | PropertyNotify
  | SelectionRequest | SelectionNotify | ClientMessage | MappingNotify
  | GenericEvent | OtherEvent int

record XConfigureEvent =
  xconfigure_x :: int
  xconfigure_y :: int
  xconfigure_width :: int
  xconfigure_height :: int

text \<open>
  \<open>XEvent\<close> is a C union. The dispatcher reads a member only after it has tested the type
  tag, so the members are kept side by side, each field named \<open>member_field\<close>.
  \<open>xany_window\<close> is the window field all members overlay (\<open>xclient.window\<close>,
  \<open>xproperty.window\<close>, the owner of a selection request, the requestor of a selection
  notification).
\<close>

record XEvent =
  xtype :: XEventType
  xany_window :: Window
  xkey_keycode :: "32 word"
  xkey_time :: Time
  xbutton_button :: "32 word"
  xbutton_time :: Time
  xcrossing_mode :: int
  xcrossing_detail :: int
  xfocus_detail :: int
  xconfigure :: XConfigureEvent
  xclient_message_type :: Atom
  xclient_format :: int
  xclient_data_l0 :: Atom
  xclient_data_l1_4 :: "Atom list"
  xmotion_x :: int
  xmotion_y :: int
  xproperty_atom :: Atom
  xselectionrequest_requestor :: Window
  xselectionrequest_selection :: Atom
  xselectionrequest_target :: Atom
  xselectionrequest_property :: Atom
  xselectionrequest_time :: Time
  xselection_selection :: Atom
  xselection_target :: Atom
  xselection_property :: Atom
  xselection_time :: Time

definition NotifyGrab :: int where "NotifyGrab = 1"
definition NotifyUngrab :: int where "NotifyUngrab = 2"
definition NotifyInferior :: int where "NotifyInferior = 2"
definition Button4 :: "32 word" where "Button4 = 4"
definition Button5 :: "32 word" where "Button5 = 5"
definition SDL_SCANCODE_UNKNOWN :: SDL_Scancode where "SDL_SCANCODE_UNKNOWN = 0"
definition SDL_WINDOW_HIDDEN :: Uint32 where "SDL_WINDOW_HIDDEN = 0x00000008"
definition SubstructureNotifyMask :: nat where "SubstructureNotifyMask = 2 ^ 19"
definition SubstructureRedirectMask :: nat where "SubstructureRedirectMask = 2 ^ 20"

datatype PendingFocusEnum = PENDING_FOCUS_NONE | PENDING_FOCUS_IN | PENDING_FOCUS_OUT

record SDL_WindowData =
  window :: SDL_Window
  xwindow :: Window
  ic :: "XIC option"
  pending_focus :: PendingFocusEnum
  pending_focus_time :: Uint32
  last_xconfigure :: XConfigureEvent

datatype KeyState = SDL_RELEASED | SDL_PRESSED

datatype SDL_WindowEventID =
    SDL_WINDOWEVENT_SHOWN | SDL_WINDOWEVENT_HIDDEN | SDL_WINDOWEVENT_EXPOSED
  | SDL_WINDOWEVENT_MOVED | SDL_WINDOWEVENT_RESIZED | SDL_WINDOWEVENT_MINIMIZED
  | SDL_WINDOWEVENT_RESTORED | SDL_WINDOWEVENT_CLOSE

text \<open>
  What the pump does to the outside: the calls into the portable event core and into
  Xlib, in the order they are made, with their arguments. \<open>Dispatching_FocusIn i\<close> and
  \<open>Dispatching_FocusOut i\<close> stand for the entry of \<open>X11_DispatchFocusIn\<close> and
  \<open>X11_DispatchFocusOut\<close> on the window data at index \<open>i\<close> of the window list (where
  the source has its trace line). \<open>Unrecognized_key\<close> is the diagnostic written for a key
  code without a scancode.
\<close>

datatype call =
    SDL_SendSysWMEvent XEvent
  | SDL_SetMouseFocus "SDL_Window option"
  | SDL_SetKeyboardFocus "SDL_Window option"
  | SDL_ResetKeyboard
  | SDL_SendKeyboardKey KeyState SDL_Scancode
  | SDL_SendKeyboardText string
  | SDL_SendWindowEvent SDL_Window SDL_WindowEventID int int
  | SDL_SendMouseMotion SDL_Window int int int
  | SDL_SendMouseButton SDL_Window KeyState "32 word"
  | SDL_SendMouseWheel SDL_Window int int
  | XSendEvent Window bool nat XEvent
  | XChangeProperty Window Atom Atom int "8 word list"
  | XSync
  | XSetICFocus XIC
  | XUnsetICFocus XIC
  | XResetScreenSaver
  | X11_UpdateKeymap
  | X11_HandleGenericEvent XEvent
  | Unrecognized_key "8 word"
  | Dispatching_FocusIn nat
  | Dispatching_FocusOut nat

text \<open>
  The driver data together with what the dispatcher reads from its surroundings.
  \<open>queue\<close> holds the events pending on the display connection, oldest first.
  \<open>clock\<close> is the sequence of values \<open>SDL_GetTicks\<close> returns and \<open>reads\<close> counts the
  calls made so far. \<open>XFilterEvent\<close>, \<open>LookupString\<close>, \<open>X11_GetNetWMState\<close>,
  \<open>SDL_window_flags\<close> and \<open>cut_buffer\<close> are the answers of the input method, of the
  window manager, of the portable core and of the root window's cut buffer; they are
  arbitrary. \<open>PENDING_FOCUS_IN_TIME\<close> and \<open>PENDING_FOCUS_OUT_TIME\<close> are the two
  debounce delays, which the window header defines; \<open>supports_generic_events\<close> is the
  build option of that name and \<open>ulong_bits\<close> the number of bits of unsigned long on
  the target.
\<close>

record SDL_VideoData =
  queue :: "XEvent list"
  windowlist :: "SDL_WindowData option list"
  key_layout :: "8 word \<Rightarrow> SDL_Scancode"
  WM_PROTOCOLS :: Atom
  NET_WM_PING :: Atom
  WM_DELETE_WINDOW :: Atom
  NET_WM_STATE :: Atom
  selection_waiting :: bool
  root :: Window
  keyboard_focus :: "SDL_Window option"
  syswm_enabled :: bool
  relative_mode :: bool
  suspend_screensaver :: bool
  screensaver_activity :: Uint32
  supports_generic_events :: bool
  ulong_bits :: nat
  PENDING_FOCUS_IN_TIME :: Uint32
  PENDING_FOCUS_OUT_TIME :: Uint32
  clock :: "nat \<Rightarrow> Uint32"
  reads :: nat
  XFilterEvent :: "XEvent \<Rightarrow> bool"
  LookupString :: "XEvent \<Rightarrow> string"
  X11_GetNetWMState :: "Window \<Rightarrow> Uint32"
  SDL_window_flags :: "SDL_Window \<Rightarrow> Uint32"
  cut_buffer :: "Atom \<Rightarrow> (Atom \<times> int \<times> 8 word list) option"
  calls :: "call list"

subsection \<open>Primitives\<close>

definition emit :: "call \<Rightarrow> SDL_VideoData \<Rightarrow> SDL_VideoData" where
  "emit c s = s\<lparr>calls := calls s @ [c]\<rparr>"

definition SDL_GetTicks :: "SDL_VideoData \<Rightarrow> Uint32 \<times> SDL_VideoData" where
  "SDL_GetTicks s = (clock s (reads s), s\<lparr>reads := Suc (reads s)\<rparr>)"

definition XPending :: "SDL_VideoData \<Rightarrow> nat" where
  "XPending s = length (queue s)"

text \<open>
  \<open>XPending\<close> is the number of queued events and \<open>XPeekEvent\<close>, called only when that
  is not zero, the head of the queue: the two lookahead functions below read both at once
  with a case distinction on the queue. \<open>XNextEvent\<close> blocks on an empty queue: \<open>None\<close>.
\<close>

definition XNextEvent :: "SDL_VideoData \<Rightarrow> (XEvent \<times> SDL_VideoData) option" where
  "XNextEvent s = (case queue s of [] \<Rightarrow> None | e # q \<Rightarrow> Some (e, s\<lparr>queue := q\<rparr>))"

text \<open>The first window data of the list whose native handle is \<open>w\<close>, with its index.\<close>

fun find_window :: "SDL_WindowData option list \<Rightarrow> Window \<Rightarrow> (nat \<times> SDL_WindowData) option" where
  "find_window [] w = None"
| "find_window (None # ds) w = map_option (\<lambda>(i, d). (Suc i, d)) (find_window ds w)"
| "find_window (Some d # ds) w =
     (if xwindow d = w then Some (0, d)
      else map_option (\<lambda>(i, d). (Suc i, d)) (find_window ds w))"

definition set_data :: "nat \<Rightarrow> SDL_WindowData \<Rightarrow> SDL_VideoData \<Rightarrow> SDL_VideoData" where
  "set_data i d s = s\<lparr>windowlist := (windowlist s)[i := Some d]\<rparr>"

subsection \<open>Wheel and key-repeat lookahead\<close>

text \<open>
  The difference of two \<open>Time\<close> values as C computes it: in unsigned long arithmetic,
  modulo \<open>2^w\<close> for a long of \<open>w\<close> bits.
\<close>

definition ulong_sub :: "nat \<Rightarrow> Time \<Rightarrow> Time \<Rightarrow> nat" where
  "ulong_sub w a b = nat ((int a - int b) mod 2 ^ w)"

definition X11_KeyRepeat :: "SDL_VideoData \<Rightarrow> XEvent \<Rightarrow> bool" where
  "X11_KeyRepeat s event =
     (case queue s of
        [] \<Rightarrow> False
      | peekevent # q \<Rightarrow>
          xtype peekevent = KeyPress \<and>
          xkey_keycode peekevent = xkey_keycode event \<and>
          ulong_sub (ulong_bits s) (xkey_time peekevent) (xkey_time event) < 2)"

text \<open>Returns the flag, the value left in \<open>*ticks\<close> and the display after the call.\<close>

definition X11_IsWheelEvent :: "SDL_VideoData \<Rightarrow> XEvent \<Rightarrow> int \<Rightarrow> bool \<times> int \<times> SDL_VideoData" where
  "X11_IsWheelEvent s event ticks =
     (case queue s of
        [] \<Rightarrow> (False, ticks, s)
      | peekevent # q \<Rightarrow>
          if xtype peekevent = ButtonRelease \<and>
             xbutton_button peekevent = xbutton_button event \<and>
             xbutton_time peekevent = xbutton_time event
          then (True,
                (if xbutton_button event = Button4 then 1
                 else if xbutton_button event = Button5 then - 1
                 else ticks),
                s\<lparr>queue := q\<rparr>)
          else (False, ticks, s))"

subsection \<open>Focus and map helpers\<close>

text \<open>
  The two focus helpers as built with UTF-8 input methods: the input context, when the
  window has one, gains or loses the focus too. \<open>SDL_SetKeyboardFocus\<close> changes what
  \<open>SDL_GetKeyboardFocus\<close> returns, which is \<open>keyboard_focus\<close>.
\<close>

definition X11_DispatchFocusIn :: "nat \<Rightarrow> SDL_WindowData \<Rightarrow> SDL_VideoData \<Rightarrow> SDL_VideoData" where
  "X11_DispatchFocusIn i data s =
     (let s1 = emit (Dispatching_FocusIn i) s;
          s2 = (emit (SDL_SetKeyboardFocus (Some (window data))) s1)
                 \<lparr>keyboard_focus := Some (window data)\<rparr>
      in case ic data of None \<Rightarrow> s2 | Some c \<Rightarrow> emit (XSetICFocus c) s2)"

definition X11_DispatchFocusOut :: "nat \<Rightarrow> SDL_WindowData \<Rightarrow> SDL_VideoData \<Rightarrow> SDL_VideoData" where
  "X11_DispatchFocusOut i data s =
     (let s1 = emit (Dispatching_FocusOut i) s;
          s2 = (emit (SDL_SetKeyboardFocus None) s1)\<lparr>keyboard_focus := None\<rparr>
      in case ic data of None \<Rightarrow> s2 | Some c \<Rightarrow> emit (XUnsetICFocus c) s2)"

definition X11_DispatchMapNotify :: "SDL_WindowData \<Rightarrow> SDL_VideoData \<Rightarrow> SDL_VideoData" where
  "X11_DispatchMapNotify data s =
     emit (SDL_SendWindowEvent (window data) SDL_WINDOWEVENT_RESTORED 0 0)
       (emit (SDL_SendWindowEvent (window data) SDL_WINDOWEVENT_SHOWN 0 0) s)"

definition X11_DispatchUnmapNotify :: "SDL_WindowData \<Rightarrow> SDL_VideoData \<Rightarrow> SDL_VideoData" where
  "X11_DispatchUnmapNotify data s =
     emit (SDL_SendWindowEvent (window data) SDL_WINDOWEVENT_MINIMIZED 0 0)
       (emit (SDL_SendWindowEvent (window data) SDL_WINDOWEVENT_HIDDEN 0 0) s)"

subsection \<open>The arms of the dispatcher's switch\<close>

text \<open>
  Each arm takes the event, the index \<open>i\<close> of the window data the event resolved to,
  that window data and the driver state. \<open>data->window\<close> is never \<open>NULL\<close>, so it equals
  the keyboard focus only when there is one.
\<close>

definition dispatch_EnterNotify :: "XEvent \<Rightarrow> nat \<Rightarrow> SDL_WindowData \<Rightarrow> SDL_VideoData \<Rightarrow> SDL_VideoData" where
  "dispatch_EnterNotify xevent i data s = emit (SDL_SetMouseFocus (Some (window data))) s"

definition dispatch_LeaveNotify :: "XEvent \<Rightarrow> nat \<Rightarrow> SDL_WindowData \<Rightarrow> SDL_VideoData \<Rightarrow> SDL_VideoData" where
  "dispatch_LeaveNotify xevent i data s =
     (if xcrossing_mode xevent \<noteq> NotifyGrab \<and>
         xcrossing_mode xevent \<noteq> NotifyUngrab \<and>
         xcrossing_detail xevent \<noteq> NotifyInferior
      then emit (SDL_SetMouseFocus None) s else s)"

definition dispatch_FocusIn :: "XEvent \<Rightarrow> nat \<Rightarrow> SDL_WindowData \<Rightarrow> SDL_VideoData \<Rightarrow> SDL_VideoData" where
  "dispatch_FocusIn xevent i data s =
     (if xfocus_detail xevent = NotifyInferior then s
      else
        let s1 = (if pending_focus data = PENDING_FOCUS_OUT \<and>
                     keyboard_focus s = Some (window data)
                  then emit SDL_ResetKeyboard s else s);
            (now, s2) = SDL_GetTicks s1
        in set_data i (data\<lparr>pending_focus := PENDING_FOCUS_IN,
                            pending_focus_time := now + PENDING_FOCUS_IN_TIME s\<rparr>) s2)"

definition dispatch_FocusOut :: "XEvent \<Rightarrow> nat \<Rightarrow> SDL_WindowData \<Rightarrow> SDL_VideoData \<Rightarrow> SDL_VideoData" where
  "dispatch_FocusOut xevent i data s =
     (if xfocus_detail xevent = NotifyInferior then s
      else
        let (now, s1) = SDL_GetTicks s
        in set_data i (data\<lparr>pending_focus := PENDING_FOCUS_OUT,
                            pending_focus_time := now + PENDING_FOCUS_OUT_TIME s\<rparr>) s1)"

text \<open>
  \<open>KeyCode\<close> is an unsigned char: the key code is cut to 8 bits before it indexes the
  256 entries of \<open>key_layout\<close>. The text lookup is the one of builds with UTF-8 input
  methods, made only for a window that has an input context.
\<close>

definition dispatch_KeyPress :: "XEvent \<Rightarrow> nat \<Rightarrow> SDL_WindowData \<Rightarrow> SDL_VideoData \<Rightarrow> SDL_VideoData" where
  "dispatch_KeyPress xevent i data s =
     (let keycode = (ucast (xkey_keycode xevent) :: 8 word);
          s1 = emit (SDL_SendKeyboardKey SDL_PRESSED (key_layout s keycode)) s;
          s2 = (if key_layout s keycode = SDL_SCANCODE_UNKNOWN
                then emit (Unrecognized_key keycode) s1 else s1);
          text = (case ic data of None \<Rightarrow> [] | Some c \<Rightarrow> LookupString s xevent)
      in if text \<noteq> [] then emit (SDL_SendKeyboardText text) s2 else s2)"

definition dispatch_KeyRelease :: "XEvent \<Rightarrow> nat \<Rightarrow> SDL_WindowData \<Rightarrow> SDL_VideoData \<Rightarrow> SDL_VideoData" where
  "dispatch_KeyRelease xevent i data s =
     (let keycode = (ucast (xkey_keycode xevent) :: 8 word)
      in if X11_KeyRepeat s xevent then s
         else emit (SDL_SendKeyboardKey SDL_RELEASED (key_layout s keycode)) s)"

definition dispatch_ConfigureNotify :: "XEvent \<Rightarrow> nat \<Rightarrow> SDL_WindowData \<Rightarrow> SDL_VideoData \<Rightarrow> SDL_VideoData" where
  "dispatch_ConfigureNotify xevent i data s =
     (let c = xconfigure xevent;
          l = last_xconfigure data;
          s1 = (if xconfigure_x c \<noteq> xconfigure_x l \<or> xconfigure_y c \<noteq> xconfigure_y l
                then emit (SDL_SendWindowEvent (window data) SDL_WINDOWEVENT_MOVED
                             (xconfigure_x c) (xconfigure_y c)) s
                else s);
          s2 = (if xconfigure_width c \<noteq> xconfigure_width l \<or>
                   xconfigure_height c \<noteq> xconfigure_height l
                then emit (SDL_SendWindowEvent (window data) SDL_WINDOWEVENT_RESIZED
                             (xconfigure_width c) (xconfigure_height c)) s1
                else s1)
      in set_data i (data\<lparr>last_xconfigure := c\<rparr>) s2)"

definition dispatch_ClientMessage :: "XEvent \<Rightarrow> nat \<Rightarrow> SDL_WindowData \<Rightarrow> SDL_VideoData \<Rightarrow> SDL_VideoData" where
  "dispatch_ClientMessage xevent i data s =
     (if xclient_message_type xevent = WM_PROTOCOLS s \<and>
         xclient_format xevent = 32 \<and>
         xclient_data_l0 xevent = NET_WM_PING s
      then emit (XSendEvent (root s) False
                   (SubstructureRedirectMask OR SubstructureNotifyMask)
                   (xevent\<lparr>xany_window := root s\<rparr>)) s
      else if xclient_message_type xevent = WM_PROTOCOLS s \<and>
              xclient_format xevent = 32 \<and>
              xclient_data_l0 xevent = WM_DELETE_WINDOW s
      then emit (SDL_SendWindowEvent (window data) SDL_WINDOWEVENT_CLOSE 0 0) s
      else s)"

definition dispatch_MotionNotify :: "XEvent \<Rightarrow> nat \<Rightarrow> SDL_WindowData \<Rightarrow> SDL_VideoData \<Rightarrow> SDL_VideoData" where
  "dispatch_MotionNotify xevent i data s =
     (if \<not> relative_mode s
      then emit (SDL_SendMouseMotion (window data) 0 (xmotion_x xevent) (xmotion_y xevent)) s
      else s)"

definition dispatch_ButtonPress :: "XEvent \<Rightarrow> nat \<Rightarrow> SDL_WindowData \<Rightarrow> SDL_VideoData \<Rightarrow> SDL_VideoData" where
  "dispatch_ButtonPress xevent i data s =
     (let ticks = 0;
          (wheel, ticks', s1) = X11_IsWheelEvent s xevent ticks
      in if wheel then emit (SDL_SendMouseWheel (window data) 0 ticks') s1
         else emit (SDL_SendMouseButton (window data) SDL_PRESSED (xbutton_button xevent)) s1)"

definition dispatch_ButtonRelease :: "XEvent \<Rightarrow> nat \<Rightarrow> SDL_WindowData \<Rightarrow> SDL_VideoData \<Rightarrow> SDL_VideoData" where
  "dispatch_ButtonRelease xevent i data s =
     emit (SDL_SendMouseButton (window data) SDL_RELEASED (xbutton_button xevent)) s"

definition dispatch_PropertyNotify :: "XEvent \<Rightarrow> nat \<Rightarrow> SDL_WindowData \<Rightarrow> SDL_VideoData \<Rightarrow> SDL_VideoData" where
  "dispatch_PropertyNotify xevent i data s =
     (if xproperty_atom xevent = NET_WM_STATE s then
        let flags = X11_GetNetWMState s (xany_window xevent)
        in if (flags XOR SDL_window_flags s (window data)) AND SDL_WINDOW_HIDDEN \<noteq> 0
           then (if flags AND SDL_WINDOW_HIDDEN \<noteq> 0
                 then X11_DispatchUnmapNotify data s
                 else X11_DispatchMapNotify data s)
           else s
      else s)"

text \<open>The zeroed event \<open>SDL_zero\<close> leaves behind.\<close>

definition zero_XEvent :: XEvent where
  "zero_XEvent =
     \<lparr>xtype = OtherEvent 0, xany_window = 0, xkey_keycode = 0, xkey_time = 0,
      xbutton_button = 0, xbutton_time = 0, xcrossing_mode = 0, xcrossing_detail = 0,
      xfocus_detail = 0,
      xconfigure = \<lparr>xconfigure_x = 0, xconfigure_y = 0, xconfigure_width = 0,
                    xconfigure_height = 0\<rparr>,
      xclient_message_type = 0, xclient_format = 0, xclient_data_l0 = 0,
      xclient_data_l1_4 = [0, 0, 0, 0], xmotion_x = 0, xmotion_y = 0, xproperty_atom = 0,
      xselectionrequest_requestor = 0, xselectionrequest_selection = 0,
      xselectionrequest_target = 0, xselectionrequest_property = 0,
      xselectionrequest_time = 0, xselection_selection = 0, xselection_target = 0,
      xselection_property = 0, xselection_time = 0\<rparr>"

definition dispatch_SelectionRequest :: "XEvent \<Rightarrow> nat \<Rightarrow> SDL_WindowData \<Rightarrow> SDL_VideoData \<Rightarrow> SDL_VideoData" where
  "dispatch_SelectionRequest xevent i data s =
     (let sevent = zero_XEvent
            \<lparr>xtype := SelectionNotify,
             xany_window := xselectionrequest_requestor xevent,
             xselection_selection := xselectionrequest_selection xevent,
             xselection_target := 0,
             xselection_property := 0,
             xselection_time := xselectionrequest_time xevent\<rparr>;
          (sevent', s1) =
            (case cut_buffer s (xselectionrequest_target xevent) of
               None \<Rightarrow> (sevent, s)
             | Some (actual_type, seln_format, seln_data) \<Rightarrow>
                 if actual_type = xselectionrequest_target xevent
                 then (sevent\<lparr>xselection_target := actual_type,
                               xselection_property := xselectionrequest_property xevent\<rparr>,
                       emit (XChangeProperty (xselectionrequest_requestor xevent)
                               (xselectionrequest_property xevent) actual_type seln_format
                               seln_data) s)
                 else (sevent\<lparr>xselection_target := actual_type\<rparr>, s))
      in emit XSync
           (emit (XSendEvent (xselectionrequest_requestor xevent) False 0 sevent') s1))"

definition dispatch_switch :: "XEvent \<Rightarrow> nat \<Rightarrow> SDL_WindowData \<Rightarrow> SDL_VideoData \<Rightarrow> SDL_VideoData" where
  "dispatch_switch xevent i data s =
     (case xtype xevent of
        EnterNotify \<Rightarrow> dispatch_EnterNotify xevent i data s
      | LeaveNotify \<Rightarrow> dispatch_LeaveNotify xevent i data s
      | FocusIn \<Rightarrow> dispatch_FocusIn xevent i data s
      | FocusOut \<Rightarrow> dispatch_FocusOut xevent i data s
      | KeymapNotify \<Rightarrow> s
      | MappingNotify \<Rightarrow> emit X11_UpdateKeymap s
      | KeyPress \<Rightarrow> dispatch_KeyPress xevent i data s
      | KeyRelease \<Rightarrow> dispatch_KeyRelease xevent i data s
      | UnmapNotify \<Rightarrow> X11_DispatchUnmapNotify data s
      | MapNotify \<Rightarrow> X11_DispatchMapNotify data s
      | ConfigureNotify \<Rightarrow> dispatch_ConfigureNotify xevent i data s
      | ClientMessage \<Rightarrow> dispatch_ClientMessage xevent i data s
      | Expose \<Rightarrow> emit (SDL_SendWindowEvent (window data) SDL_WINDOWEVENT_EXPOSED 0 0) s
      | MotionNotify \<Rightarrow> dispatch_MotionNotify xevent i data s
      | ButtonPress \<Rightarrow> dispatch_ButtonPress xevent i data s
      | ButtonRelease \<Rightarrow> dispatch_ButtonRelease xevent i data s
      | PropertyNotify \<Rightarrow> dispatch_PropertyNotify xevent i data s
      | SelectionRequest \<Rightarrow> dispatch_SelectionRequest xevent i data s
      | SelectionNotify \<Rightarrow> s\<lparr>selection_waiting := False\<rparr>
      | GenericEvent \<Rightarrow> s
      | OtherEvent n \<Rightarrow> s)"

subsection \<open>The dispatcher\<close>

text \<open>
  What \<open>X11_DispatchEvent\<close> does once \<open>XNextEvent\<close> has returned \<open>xevent\<close>: the
  input-method filter, the system-message copy, the generic-event path, the window lookup
  and the switch.
\<close>

definition dispatch_xevent :: "XEvent \<Rightarrow> SDL_VideoData \<Rightarrow> SDL_VideoData" where
  "dispatch_xevent xevent s =
     (if XFilterEvent s xevent then s
      else
        let s1 = (if syswm_enabled s then emit (SDL_SendSysWMEvent xevent) s else s)
        in if supports_generic_events s1 \<and> xtype xevent = GenericEvent
           then emit (X11_HandleGenericEvent xevent) s1
           else (case find_window (windowlist s1) (xany_window xevent) of
                   None \<Rightarrow> s1
                 | Some (i, data) \<Rightarrow> dispatch_switch xevent i data s1))"

definition X11_DispatchEvent :: "SDL_VideoData \<Rightarrow> SDL_VideoData option" where
  "X11_DispatchEvent s =
     (case XNextEvent s of
        None \<Rightarrow> None
      | Some (xevent, s1) \<Rightarrow> Some (dispatch_xevent xevent s1))"

subsection \<open>The focus debouncer\<close>

text \<open>One turn of the loop of \<open>X11_HandleFocusChanges\<close>, for the entry at index \<open>i\<close>.\<close>

definition HandleFocusChanges_at :: "nat \<Rightarrow> SDL_VideoData \<Rightarrow> SDL_VideoData" where
  "HandleFocusChanges_at i s =
     (case windowlist s ! i of
        None \<Rightarrow> s
      | Some data \<Rightarrow>
          if pending_focus data \<noteq> PENDING_FOCUS_NONE then
            let (now, s1) = SDL_GetTicks s
            in if sint (pending_focus_time data - now) \<le> 0 then
                 let s2 = (if pending_focus data = PENDING_FOCUS_IN
                           then X11_DispatchFocusIn i data s1
                           else X11_DispatchFocusOut i data s1)
                 in set_data i (data\<lparr>pending_focus := PENDING_FOCUS_NONE\<rparr>) s2
               else s1
          else s)"

definition X11_HandleFocusChanges :: "SDL_VideoData \<Rightarrow> SDL_VideoData" where
  "X11_HandleFocusChanges s =
     foldl (\<lambda>s' i. HandleFocusChanges_at i s') s [0 ..< length (windowlist s)]"

subsection \<open>The pump\<close>

definition X11_Pending :: "SDL_VideoData \<Rightarrow> bool" where
  "X11_Pending s = (XPending s \<noteq> 0)"

text \<open>
  The loop \<open>while (X11_Pending(display)) X11_DispatchEvent(_this)\<close>, given as fuel the
  number of turns it may take; \<open>None\<close> when the fuel runs out or the dispatcher blocks.
\<close>

fun pump_loop :: "nat \<Rightarrow> SDL_VideoData \<Rightarrow> SDL_VideoData option" where
  "pump_loop 0 s = (if X11_Pending s then None else Some s)"
| "pump_loop (Suc n) s =
     (if X11_Pending s
      then (case X11_DispatchEvent s of None \<Rightarrow> None | Some s' \<Rightarrow> pump_loop n s')
      else Some s)"

definition screensaver_tick :: "SDL_VideoData \<Rightarrow> SDL_VideoData" where
  "screensaver_tick s =
     (if suspend_screensaver s then
        let (now, s1) = SDL_GetTicks s
        in if screensaver_activity s1 = 0 \<or> 30000 \<le> sint (now - screensaver_activity s1)
           then (emit XResetScreenSaver s1)\<lparr>screensaver_activity := now\<rparr>
           else s1
      else s)"

text \<open>\<open>X11_PumpEvents\<close> up to the focus debouncer; the touch devices follow below.\<close>

definition X11_PumpEvents :: "nat \<Rightarrow> SDL_VideoData \<Rightarrow> SDL_VideoData option" where
  "X11_PumpEvents fuel s =
     map_option X11_HandleFocusChanges (pump_loop fuel (screensaver_tick s))"

text \<open>The calls a step from \<open>s\<close> to \<open>s'\<close> has added to the trace.\<close>

definition emitted :: "SDL_VideoData \<Rightarrow> SDL_VideoData \<Rightarrow> call list" where
  "emitted s s' = drop (length (calls s)) (calls s')"

text \<open>
  The order of server timestamps, whose counter wraps at \<open>2^32\<close>, as the X protocol
  reads it: \<open>a\<close> is before \<open>b\<close> when going from \<open>a\<close> forward to \<open>b\<close> takes less than
  half of the timestamp space.
\<close>

definition Time_before :: "Time \<Rightarrow> Time \<Rightarrow> bool" where
  "Time_before a b = (0 < (int b - int a) mod 2 ^ 32 \<and> (int b - int a) mod 2 ^ 32 < 2 ^ 31)"

subsection \<open>Raw touch devices (the tail of X11\_PumpEvents)\<close>

text \<open>
  The per-device data of the touch header and the kernel's \<open>input_event\<close>, with the
  event codes of the kernel's input header. \<open>touch_event\<close> is the body of the inner
  loop, the switch on one raw event of the device \<open>tid\<close>; \<open>touch_events\<close> is that loop
  over the events one \<open>read\<close> returned.
\<close>

record input_event =
  ev_type :: "16 word"
  ev_code :: "16 word"
  ev_value :: int

record EventTouchData =
  touch_x :: int
  touch_y :: int
  pressure :: int
  finger :: int
  up :: bool
  down :: bool
  eventStream :: int

definition EV_SYN :: "16 word" where "EV_SYN = 0x00"
definition EV_KEY :: "16 word" where "EV_KEY = 0x01"
definition EV_ABS :: "16 word" where "EV_ABS = 0x03"
definition EV_MSC :: "16 word" where "EV_MSC = 0x04"
definition ABS_X :: "16 word" where "ABS_X = 0x00"
definition ABS_Y :: "16 word" where "ABS_Y = 0x01"
definition ABS_PRESSURE :: "16 word" where "ABS_PRESSURE = 0x18"
definition ABS_MISC :: "16 word" where "ABS_MISC = 0x28"
definition MSC_SERIAL :: "16 word" where "MSC_SERIAL = 0x00"
definition BTN_TOUCH :: "16 word" where "BTN_TOUCH = 0x14a"

datatype touch_call =
    SDL_SendFingerDown nat int bool int int int
  | SDL_SendTouchMotion nat int bool int int int

definition touch_event :: "nat \<Rightarrow> input_event \<Rightarrow> EventTouchData \<Rightarrow> EventTouchData \<times> touch_call list" where
  "touch_event tid ev data =
     (if ev_type ev = EV_ABS then
        (if ev_code ev = ABS_X then (data\<lparr>touch_x := ev_value ev\<rparr>, [])
         else if ev_code ev = ABS_Y then (data\<lparr>touch_y := ev_value ev\<rparr>, [])
         else if ev_code ev = ABS_PRESSURE then
           (data\<lparr>pressure := (if ev_value ev < 0 then 0 else ev_value ev)\<rparr>, [])
         else if ev_code ev = ABS_MISC then
           ((if ev_value ev = 0 then data\<lparr>up := True\<rparr> else data), [])
         else (data, []))
      else if ev_type ev = EV_MSC then
        ((if ev_code ev = MSC_SERIAL then data\<lparr>finger := ev_value ev\<rparr> else data), [])
      else if ev_type ev = EV_KEY then
        ((if ev_code ev = BTN_TOUCH \<and> ev_value ev = 0 then data\<lparr>up := True\<rparr> else data), [])
      else if ev_type ev = EV_SYN then
        (if \<not> down data then
           (data\<lparr>down := True\<rparr>,
            [SDL_SendFingerDown tid (finger data) True (touch_x data) (touch_y data)
               (pressure data)])
         else if \<not> up data then
           (data,
            [SDL_SendTouchMotion tid (finger data) False (touch_x data) (touch_y data)
               (pressure data)])
         else
           (data\<lparr>down := False, touch_x := - 1, touch_y := - 1, pressure := - 1,
                  finger := 0, up := False\<rparr>,
            [SDL_SendFingerDown tid (finger data) False (touch_x data) (touch_y data)
               (pressure data)]))
      else (data, []))"

fun touch_events :: "nat \<Rightarrow> input_event list \<Rightarrow> EventTouchData \<Rightarrow> EventTouchData \<times> touch_call list" where
  "touch_events tid [] data = (data, [])"
| "touch_events tid (ev # evs) data =
     (let (data1, out1) = touch_event tid ev data;
          (data2, out2) = touch_events tid evs data1
      in (data2, out1 @ out2))"

section \<open>MSM framebuffer driver (src/video/msmfb/SDL\_msmfb\_video.c)\<close>

subsection \<open>Data model\<close>

text \<open>
  The fields of the kernel's two screen-info structures that the driver reads or writes.
  \<open>fb_mem\<close> is the address of the mapping, \<open>0\<close> for \<open>NULL\<close>. An unmapping is
  recorded with its address and with the length \<open>(int)smem_len + fb_mem_offset\<close> as
  computed before the conversion to \<open>size_t\<close>.
\<close>

record fb_fix_screeninfo =
  fix_id :: string
  smem_start :: "32 word"
  smem_len :: "32 word"
  fix_type :: "32 word"
  visual :: "32 word"
  line_length :: "32 word"

record fb_var_screeninfo =
  xres :: "32 word"
  yres :: "32 word"
  xoffset :: "32 word"
  yoffset :: "32 word"
  activate :: "32 word"

record MSMFB_VideoDriverData =
  fb_fd :: int
  fb_mem_offset :: int
  fb_fix :: fb_fix_screeninfo
  fb_var :: fb_var_screeninfo
  fb_var_orig :: fb_var_screeninfo
  fb_mem :: nat

record mdp_display_commit =
  commit_flags :: "32 word"
  wait_for_finish :: "32 word"

record SDL_DisplayMode =
  mode_format :: "32 word"
  mode_w :: int
  mode_h :: int
  refresh_rate :: int

record SDL_Rect =
  rect_x :: int
  rect_y :: int
  rect_w :: int
  rect_h :: int

record SDL_Window_size =
  window_w :: int
  window_h :: int

definition FB_TYPE_PACKED_PIXELS :: "32 word" where "FB_TYPE_PACKED_PIXELS = 0"
definition FB_VISUAL_TRUECOLOR :: "32 word" where "FB_VISUAL_TRUECOLOR = 2"
definition SDL_PIXELFORMAT_ABGR8888 :: "32 word" where "SDL_PIXELFORMAT_ABGR8888 = 0x16762004"
definition MDP_DISPLAY_COMMIT_OVERLAY :: "32 word" where "MDP_DISPLAY_COMMIT_OVERLAY = 1"

datatype fb_request =
    FBIOGET_FSCREENINFO
  | FBIOGET_VSCREENINFO
  | MSMFB_DISPLAY_COMMIT mdp_display_commit

text \<open>
  What the driver does to the outside, in order: system calls, log lines (by their
  format string) and the two calls that register the display and its mode.
\<close>

datatype fb_call =
    Sys_open string
  | Sys_ioctl int fb_request
  | Sys_munmap nat int
  | SDL_LogError string
  | SDL_LogWarn string
  | SDL_LogDebug string
  | SDL_AddBasicVideoDisplay SDL_DisplayMode
  | SDL_AddDisplayMode nat SDL_DisplayMode

text \<open>
  The answers of the surroundings: the environment variable, the descriptor \<open>open\<close>
  returns (\<open>- 1\<close> on failure), the structures the two query ioctls fill in (\<open>None\<close> when
  the ioctl returns \<open>- 1\<close>), and the return values of \<open>SDL_AddBasicVideoDisplay\<close> and of
  the commit ioctl.
\<close>

record fb_environment =
  SDL_MSMFB_FBDEVICE :: "string option"
  open_result :: int
  fscreeninfo :: "fb_fix_screeninfo option"
  vscreeninfo :: "fb_var_screeninfo option"
  add_display_result :: int
  commit_result :: int

record MSMFB_device =
  driverdata :: MSMFB_VideoDriverData
  trace :: "fb_call list"

definition fb_do :: "fb_call \<Rightarrow> MSMFB_device \<Rightarrow> MSMFB_device" where
  "fb_do c dev = dev\<lparr>trace := trace dev @ [c]\<rparr>"

subsection \<open>Operations\<close>

definition msmfb_display_commit :: "fb_environment \<Rightarrow> int \<Rightarrow> MSMFB_device \<Rightarrow> MSMFB_device" where
  "msmfb_display_commit env fd dev =
     (let info = \<lparr>commit_flags = MDP_DISPLAY_COMMIT_OVERLAY, wait_for_finish = 0\<rparr>;
          dev1 = fb_do (Sys_ioctl fd (MSMFB_DISPLAY_COMMIT info)) dev
      in if commit_result env = - 1
         then fb_do (SDL_LogWarn ''Failed to call ioctl MSMFB_DISPLAY_COMMIT'') dev1
         else dev1)"

text \<open>
  \<open>MSMFB_VideoInit\<close> in three parts, in the order of the source: opening the device
  and the two queries; the checks of the pixel layout; the registration of the mode.
\<close>

definition VideoInit_publish :: "fb_environment \<Rightarrow> fb_var_screeninfo \<Rightarrow> MSMFB_device \<Rightarrow> int \<times> MSMFB_device" where
  "VideoInit_publish env var dev =
     (let mode = \<lparr>mode_format = SDL_PIXELFORMAT_ABGR8888,
                 mode_w = sint (xres var), mode_h = sint (yres var), refresh_rate = 60\<rparr>;
          dev1 = fb_do (SDL_AddBasicVideoDisplay mode) dev
      in if add_display_result env < 0
         then (- 1, fb_do (SDL_LogError
                 ''MSMFB_VideoInit: SDL_AddBasicVideoDisplay() failed!'') dev1)
         else (0, fb_do (SDL_LogDebug ''MSMFB_VideoInit done.'')
                    (fb_do (SDL_AddDisplayMode 0 mode) dev1)))"

definition VideoInit_check :: "fb_environment \<Rightarrow> fb_fix_screeninfo \<Rightarrow> fb_var_screeninfo \<Rightarrow> MSMFB_device \<Rightarrow> int \<times> MSMFB_device" where
  "VideoInit_check env fix var dev =
     (let dev1 = dev\<lparr>driverdata := (driverdata dev)\<lparr>fb_var_orig := var\<rparr>\<rparr>;
          dev2 = fb_do (SDL_LogDebug ''MSMFB_VideoInit: Opened framebuffer name: %s'') dev1
      in if fix_type fix \<noteq> FB_TYPE_PACKED_PIXELS
         then (- 1, fb_do (SDL_LogError
                 ''MSMFB_VideoInit: can handle only packed pixel frame buffers!'') dev2)
         else if visual fix \<noteq> FB_VISUAL_TRUECOLOR
         then (- 1, fb_do (SDL_LogError
                 ''MSMFB_VideoInit: can handle only true color format!'') dev2)
         else VideoInit_publish env var dev2)"

definition MSMFB_VideoInit :: "fb_environment \<Rightarrow> MSMFB_device \<Rightarrow> int \<times> MSMFB_device" where
  "MSMFB_VideoInit env dev =
     (let devfb0 = (case SDL_MSMFB_FBDEVICE env of None \<Rightarrow> ''/dev/fb0'' | Some p \<Rightarrow> p);
          dev1 = fb_do (SDL_LogDebug ''MSMFB_VideoInit: trying fbdev: %s ...'') dev;
          fd = open_result env;
          dev2 = (fb_do (Sys_open devfb0) dev1)\<lparr>driverdata := (driverdata dev1)\<lparr>fb_fd := fd\<rparr>\<rparr>;
          dev3 = fb_do (Sys_ioctl fd FBIOGET_FSCREENINFO) dev2
      in if fd = - 1
         then (- 1, fb_do (SDL_LogError ''MSMFB_VideoInit: error opening %s: %s'') dev2)
         else if fscreeninfo env = None
         then (- 1, fb_do (SDL_LogError
                 ''MSMFB_VideoInit: ioctl FBIOGET_FSCREENINFO: %s'') dev3)
         else
           (let fix = the (fscreeninfo env);
                dev4 = (fb_do (Sys_ioctl fd FBIOGET_VSCREENINFO) dev3)
                         \<lparr>driverdata := (driverdata dev3)\<lparr>fb_fix := fix\<rparr>\<rparr>
            in if vscreeninfo env = None
               then (- 1, fb_do (SDL_LogError
                       ''MSMFB_VideoInit: ioctl FBIOGET_VSCREENINFO: %s'') dev4)
               else
                 (let var = the (vscreeninfo env);
                      dev5 = dev4\<lparr>driverdata := (driverdata dev4)\<lparr>fb_var := var\<rparr>\<rparr>
                  in VideoInit_check env fix var dev5)))"

text \<open>
  The clipping the loop of \<open>MSMFB_UpdateWindowFramebuffer\<close> computes for one rectangle;
  \<open>None\<close> is its \<open>continue\<close>. The loop does nothing with the result.
\<close>

definition clip_rect :: "SDL_Window_size \<Rightarrow> SDL_Rect \<Rightarrow> (int \<times> int \<times> int \<times> int) option" where
  "clip_rect win r =
     (let x = rect_x r; y = rect_y r; w = rect_w r; h = rect_h r
      in if w \<le> 0 \<or> h \<le> 0 \<or> x + w \<le> 0 \<or> y + h \<le> 0 then None
         else
           let (x1, w1) = (if x < 0 then (x + w, w + rect_x r) else (x, w));
               (y1, h1) = (if y < 0 then (y + h, h + rect_y r) else (y, h));
               w2 = (if x1 + w1 > window_w win then window_w win - x1 else w1);
               h2 = (if y1 + h1 > window_h win then window_h win - y1 else h1)
           in Some (x1, y1, w2, h2))"

text \<open>
  \<open>rects\<close> is the array behind the pointer and \<open>numrects\<close> the count passed with it; a
  count beyond the array makes the loop read past it, which is \<open>None\<close>.
\<close>

definition MSMFB_UpdateWindowFramebuffer ::
  "fb_environment \<Rightarrow> MSMFB_device \<Rightarrow> SDL_Window_size \<Rightarrow> SDL_Rect list \<Rightarrow> int \<Rightarrow> (int \<times> MSMFB_device) option" where
  "MSMFB_UpdateWindowFramebuffer env dev win rects numrects =
     (if int (length rects) < numrects then None
      else
        let dev1 = fb_do (SDL_LogDebug ''MSMFB_UpdateWindowFramebuffer: called'') dev;
            clipped = map (clip_rect win) (take (nat numrects) rects);
            dev2 = msmfb_display_commit env (fb_fd (driverdata dev1)) dev1
        in Some (0, dev2))"

definition MSMFB_DestroyWindowFramebuffer :: "MSMFB_device \<Rightarrow> MSMFB_device" where
  "MSMFB_DestroyWindowFramebuffer dev =
     (let d = driverdata dev
      in if fb_mem d \<noteq> 0
         then fb_do (SDL_LogDebug (''unmapped framebuffer mem'' @ [CHR 0x0A]))
                ((fb_do (Sys_munmap (fb_mem d) (sint (smem_len (fb_fix d)) + fb_mem_offset d)) dev)
                   \<lparr>driverdata := d\<lparr>fb_mem := 0\<rparr>\<rparr>)
         else dev)"

text \<open>How often the trace holds the commit ioctl, and how often an unmapping.\<close>

fun is_commit :: "fb_call \<Rightarrow> bool" where
  "is_commit (Sys_ioctl fd (MSMFB_DISPLAY_COMMIT info)) = True"
| "is_commit c = False"

fun is_munmap :: "fb_call \<Rightarrow> bool" where
  "is_munmap (Sys_munmap a n) = True"
| "is_munmap c = False"

text \<open>
  The modes a trace registers: those passed to \<open>SDL_AddBasicVideoDisplay\<close> (one display
  each, with that mode as its desktop mode) and those passed to \<open>SDL_AddDisplayMode\<close>.
\<close>

fun display_of :: "fb_call \<Rightarrow> SDL_DisplayMode list" where
  "display_of (SDL_AddBasicVideoDisplay m) = [m]"
| "display_of c = []"

fun mode_of :: "fb_call \<Rightarrow> SDL_DisplayMode list" where
  "mode_of (SDL_AddDisplayMode n m) = [m]"
| "mode_of c = []"

definition added_displays :: "fb_call list \<Rightarrow> SDL_DisplayMode list" where
  "added_displays tr = concat (map display_of tr)"

definition added_modes :: "fb_call list \<Rightarrow> SDL_DisplayMode list" where
  "added_modes tr = concat (map mode_of tr)"

section \<open>Sample inputs\<close>

definition sample_window :: SDL_WindowData where
  "sample_window =
     \<lparr>window = 1, xwindow = 7, ic = None, pending_focus = PENDING_FOCUS_NONE,
      pending_focus_time = 0,
      last_xconfigure = \<lparr>xconfigure_x = 0, xconfigure_y = 0, xconfigure_width = 640,
                         xconfigure_height = 480\<rparr>\<rparr>"

definition sample_video :: "XEvent list \<Rightarrow> SDL_VideoData" where
  "sample_video q =
     \<lparr>queue = q, windowlist = [Some sample_window], key_layout = (\<lambda>k. unat k),
      WM_PROTOCOLS = 10, NET_WM_PING = 11, WM_DELETE_WINDOW = 12, NET_WM_STATE = 13,
      selection_waiting = False, root = 2, keyboard_focus = None, syswm_enabled = False,
      relative_mode = False, suspend_screensaver = False, screensaver_activity = 0,
      supports_generic_events = True, ulong_bits = 64, PENDING_FOCUS_IN_TIME = 200,
      PENDING_FOCUS_OUT_TIME = 200, clock = (\<lambda>n. 50 * of_nat n), reads = 0,
      XFilterEvent = (\<lambda>e. False), LookupString = (\<lambda>e. []), X11_GetNetWMState = (\<lambda>w. 0),
      SDL_window_flags = (\<lambda>w. 0), cut_buffer = (\<lambda>a. None), calls = []\<rparr>"

definition key_event :: "XEventType \<Rightarrow> 32 word \<Rightarrow> Time \<Rightarrow> XEvent" where
  "key_event t k tm = zero_XEvent\<lparr>xtype := t, xany_window := 7, xkey_keycode := k, xkey_time := tm\<rparr>"

definition button_event :: "XEventType \<Rightarrow> 32 word \<Rightarrow> Time \<Rightarrow> XEvent" where
  "button_event t b tm =
     zero_XEvent\<lparr>xtype := t, xany_window := 7, xbutton_button := b, xbutton_time := tm\<rparr>"

definition focus_event :: "XEventType \<Rightarrow> XEvent" where
  "focus_event t = zero_XEvent\<lparr>xtype := t, xany_window := 7\<rparr>"

definition configure_event :: "int \<Rightarrow> int \<Rightarrow> int \<Rightarrow> int \<Rightarrow> XEvent" where
  "configure_event a b c d =
     zero_XEvent\<lparr>xtype := ConfigureNotify, xany_window := 7,
       xconfigure := \<lparr>xconfigure_x = a, xconfigure_y = b, xconfigure_width = c,
                      xconfigure_height = d\<rparr>\<rparr>"

definition ping_event :: XEvent where
  "ping_event =
     zero_XEvent\<lparr>xtype := ClientMessage, xany_window := 7, xclient_message_type := 10,
       xclient_format := 32, xclient_data_l0 := 11\<rparr>"

definition idle_touch :: EventTouchData where
  "idle_touch = \<lparr>touch_x = - 1, touch_y = - 1, pressure = - 1, finger = 0, up = False,
                 down = False, eventStream = 3\<rparr>"

definition raw_event :: "16 word \<Rightarrow> 16 word \<Rightarrow> int \<Rightarrow> input_event" where
  "raw_event t c v = \<lparr>ev_type = t, ev_code = c, ev_value = v\<rparr>"

definition sample_fix :: fb_fix_screeninfo where
  "sample_fix = \<lparr>fix_id = ''mdssfb'', smem_start = 0x80000000, smem_len = 0x800000,
                 fix_type = 0, visual = 2, line_length = 2880\<rparr>"

definition sample_var :: fb_var_screeninfo where
  "sample_var = \<lparr>xres = 720, yres = 1280, xoffset = 0, yoffset = 0, activate = 0\<rparr>"

definition sample_device :: "nat \<Rightarrow> MSMFB_device" where
  "sample_device mem =
     \<lparr>driverdata = \<lparr>fb_fd = 3, fb_mem_offset = 0, fb_fix = sample_fix, fb_var = sample_var,
                    fb_var_orig = sample_var, fb_mem = mem\<rparr>,
      trace = []\<rparr>"

definition sample_env :: "fb_fix_screeninfo \<Rightarrow> int \<Rightarrow> fb_environment" where
  "sample_env fix rc =
     \<lparr>SDL_MSMFB_FBDEVICE = None, open_result = 3, fscreeninfo = Some fix,
      vscreeninfo = Some sample_var, add_display_result = 0, commit_result = rc\<rparr>"

section \<open>Properties of the X11 event pump\<close>

subsection \<open>Auxiliary facts\<close>

lemma find_window_Some:
  "find_window ws w = Some (i, d) \<Longrightarrow> i < length ws \<and> ws ! i = Some d \<and> xwindow d = w"
proof (induction ws w arbitrary: i d rule: find_window.induct)
  case (1 w)
  then show ?case by simp
next
  case (2 ds w)
  then show ?case by (cases i) auto
next
  case (3 d' ds w)
  then show ?case by (cases i) (auto split: if_splits)
qed

lemmas dispatch_defs =
  X11_DispatchEvent_def XNextEvent_def dispatch_xevent_def dispatch_switch_def emit_def
  set_data_def emitted_def Let_def

lemmas sample_defs =
  sample_video_def sample_window_def key_event_def button_event_def focus_event_def
  configure_event_def ping_event_def zero_XEvent_def

subsection \<open>The pump returns\<close>

text \<open>
  No arm of the switch adds to the queue, so the loop of the pump, given as many turns as
  events are pending, empties the queue and \<open>X11_PumpEvents\<close> returns.
\<close>

lemma emit_queue [simp]: "queue (emit c s) = queue s"
  by (simp add: emit_def)

lemma dispatch_arms_queue:
  "queue (dispatch_EnterNotify e i d s) = queue s"
  "queue (dispatch_LeaveNotify e i d s) = queue s"
  "queue (dispatch_FocusIn e i d s) = queue s"
  "queue (dispatch_FocusOut e i d s) = queue s"
  "queue (dispatch_KeyPress e i d s) = queue s"
  "queue (dispatch_KeyRelease e i d s) = queue s"
  "queue (dispatch_ConfigureNotify e i d s) = queue s"
  "queue (dispatch_ClientMessage e i d s) = queue s"
  "queue (dispatch_MotionNotify e i d s) = queue s"
  "queue (dispatch_ButtonRelease e i d s) = queue s"
  "queue (dispatch_PropertyNotify e i d s) = queue s"
  "queue (dispatch_SelectionRequest e i d s) = queue s"
  "queue (X11_DispatchMapNotify d s) = queue s"
  "queue (X11_DispatchUnmapNotify d s) = queue s"
  by (simp_all add: dispatch_EnterNotify_def dispatch_LeaveNotify_def dispatch_FocusIn_def
        dispatch_FocusOut_def dispatch_KeyPress_def dispatch_KeyRelease_def
        dispatch_ConfigureNotify_def dispatch_ClientMessage_def dispatch_MotionNotify_def
        dispatch_ButtonRelease_def dispatch_PropertyNotify_def dispatch_SelectionRequest_def
        X11_DispatchMapNotify_def X11_DispatchUnmapNotify_def set_data_def SDL_GetTicks_def
        Let_def split: option.splits prod.splits)

lemma dispatch_ButtonPress_queue:
  "length (queue (dispatch_ButtonPress e i d s)) \<le> length (queue s)"
  by (simp add: dispatch_ButtonPress_def X11_IsWheelEvent_def split: list.splits)

lemma dispatch_switch_queue:
  "length (queue (dispatch_switch e i d s)) \<le> length (queue s)"
  by (cases "xtype e")
     (simp_all add: dispatch_switch_def dispatch_arms_queue dispatch_ButtonPress_queue)

lemma dispatch_xevent_queue:
  "length (queue (dispatch_xevent e s)) \<le> length (queue s)"
proof -
  have "length (queue (dispatch_switch e i d (emit c s))) \<le> length (queue s)" for i d c
    using dispatch_switch_queue [of e i d "emit c s"] by simp
  then show ?thesis
    by (simp add: dispatch_xevent_def Let_def dispatch_switch_queue split: option.splits)
qed

lemma pump_loop_returns:
  "length (queue s) \<le> n \<Longrightarrow> \<exists>s'. pump_loop n s = Some s' \<and> queue s' = []"
proof (induction n arbitrary: s)
  case 0
  then show ?case by (simp add: X11_Pending_def XPending_def)
next
  case (Suc n)
  show ?case
  proof (cases "queue s")
    case Nil
    then show ?thesis by (simp add: X11_Pending_def XPending_def)
  next
    case (Cons e q)
    then have d: "X11_DispatchEvent s = Some (dispatch_xevent e (s\<lparr>queue := q\<rparr>))"
      by (simp add: X11_DispatchEvent_def XNextEvent_def)
    have "length (queue (dispatch_xevent e (s\<lparr>queue := q\<rparr>))) \<le> n"
      using dispatch_xevent_queue [of e "s\<lparr>queue := q\<rparr>"] Cons Suc.prems by simp
    from Suc.IH [OF this] show ?thesis
      using Cons d by (simp add: X11_Pending_def XPending_def)
  qed
qed

lemma X11_PumpEvents_returns:
  "\<exists>s'. X11_PumpEvents (length (queue s)) s = Some s'"
proof -
  have "queue (screensaver_tick s) = queue s"
    by (simp add: screensaver_tick_def SDL_GetTicks_def Let_def)
  then have "length (queue (screensaver_tick s)) \<le> length (queue s)" by simp
  from pump_loop_returns [OF this] show ?thesis
    by (auto simp add: X11_PumpEvents_def)
qed

subsection \<open>ConfigureNotify\<close>

text \<open>
  C4. A ConfigureNotify that passes the input-method filter and resolves to window data
  \<open>data\<close> at index \<open>i\<close> makes the dispatcher emit, after the system-message copy that
  every event gets when the application asked for it, a moved event exactly when the
  position differs from the last recorded geometry and then a resized event exactly when
  the size differs, each on its own; the last recorded geometry becomes the event's in
  every case. With position and size equal to the recorded ones neither event is emitted.
\<close>

theorem configure_notify_events:
  assumes "queue s = xevent # q"
      and "xtype xevent = ConfigureNotify"
      and "\<not> XFilterEvent s xevent"
      and "find_window (windowlist s) (xany_window xevent) = Some (i, data)"
  shows "\<exists>s'. X11_DispatchEvent s = Some s' \<and>
           emitted s s' =
             (if syswm_enabled s then [SDL_SendSysWMEvent xevent] else []) @
             (if xconfigure_x (xconfigure xevent) \<noteq> xconfigure_x (last_xconfigure data) \<or>
                 xconfigure_y (xconfigure xevent) \<noteq> xconfigure_y (last_xconfigure data)
              then [SDL_SendWindowEvent (window data) SDL_WINDOWEVENT_MOVED
                      (xconfigure_x (xconfigure xevent)) (xconfigure_y (xconfigure xevent))]
              else []) @
             (if xconfigure_width (xconfigure xevent) \<noteq> xconfigure_width (last_xconfigure data) \<or>
                 xconfigure_height (xconfigure xevent) \<noteq> xconfigure_height (last_xconfigure data)
              then [SDL_SendWindowEvent (window data) SDL_WINDOWEVENT_RESIZED
                      (xconfigure_width (xconfigure xevent)) (xconfigure_height (xconfigure xevent))]
              else []) \<and>
           windowlist s' = (windowlist s)[i := Some (data\<lparr>last_xconfigure := xconfigure xevent\<rparr>)] \<and>
           queue s' = q"
  using assms
  by (simp add: dispatch_defs dispatch_ConfigureNotify_def)

theorem configure_notify_events_witness:
  "queue (sample_video [configure_event 5 0 640 480]) = [configure_event 5 0 640 480] \<and>
   xtype (configure_event 5 0 640 480) = ConfigureNotify \<and>
   \<not> XFilterEvent (sample_video [configure_event 5 0 640 480]) (configure_event 5 0 640 480) \<and>
   find_window (windowlist (sample_video [configure_event 5 0 640 480]))
     (xany_window (configure_event 5 0 640 480)) = Some (0, sample_window) \<and>
   (\<exists>s'. X11_DispatchEvent (sample_video [configure_event 5 0 640 480]) = Some s' \<and>
      emitted (sample_video [configure_event 5 0 640 480]) s' =
        [SDL_SendWindowEvent 1 SDL_WINDOWEVENT_MOVED 5 0] \<and>
      map_option last_xconfigure (windowlist s' ! 0) =
        Some (xconfigure (configure_event 5 0 640 480)))"
proof -
  have h: "queue (sample_video [configure_event 5 0 640 480]) = configure_event 5 0 640 480 # []"
       "xtype (configure_event 5 0 640 480) = ConfigureNotify"
       "\<not> XFilterEvent (sample_video [configure_event 5 0 640 480]) (configure_event 5 0 640 480)"
       "find_window (windowlist (sample_video [configure_event 5 0 640 480]))
          (xany_window (configure_event 5 0 640 480)) = Some (0, sample_window)"
    by (simp_all add: sample_defs)
  from configure_notify_events [OF h] h show ?thesis
    by (auto simp add: sample_defs)
qed

subsection \<open>Key repeat\<close>

text \<open>
  The repeat test \<open>(peek time - release time) < 2\<close> in unsigned long arithmetic of
  \<open>w\<close> bits, on protocol timestamps: it holds when the press carries the release's
  timestamp or the next one and, at 32 bits only, for the press at \<open>0\<close> after the
  release at \<open>2^32 - 1\<close>, where the difference wraps to 1. At 32 bits the difference is
  the subtraction of 32-bit words.
\<close>

lemma ulong_sub_lt2_iff:
  assumes w: "32 \<le> w" and a: "a < 2 ^ 32" and b: "b < 2 ^ 32"
  shows "ulong_sub w a b < 2 \<longleftrightarrow>
           a = b \<or> a = b + 1 \<or> (w = 32 \<and> b = 2 ^ 32 - 1 \<and> a = 0)"
proof -
  define d where "d = int a - int b"
  define m :: int where "m = 2 ^ w"
  have m32: "(2 :: int) ^ 32 \<le> m"
    unfolding m_def using w by (intro power_increasing) simp_all
  have ia: "int a < 2 ^ 32" and ib: "int b < 2 ^ 32"
    using a b by simp_all
  have "0 \<le> d mod m" by (simp add: m_def)
  then have lt: "ulong_sub w a b < 2 \<longleftrightarrow> d mod m < 2"
    by (simp add: ulong_sub_def d_def m_def nat_less_iff)
  show ?thesis
  proof (cases "0 \<le> d")
    case True
    then have "d mod m = d" using ia m32 by (simp add: d_def)
    with True lt show ?thesis using ib by (auto simp add: d_def)
  next
    case False
    then have neg: "d < 0" by simp
    have low: "- (2 ^ 32) < d" using ia ib by (simp add: d_def)
    have "(d + m) mod m = d mod m" by simp
    moreover have "0 \<le> d + m" "d + m < m" using low m32 neg by simp_all
    ultimately have dm: "d mod m = d + m" by (metis mod_pos_pos_trivial)
    show ?thesis
    proof (cases "w = 32")
      case True
      then have "m = 2 ^ 32" by (simp add: m_def)
      with dm low ia ib have "d mod m < 2 \<longleftrightarrow> b = 2 ^ 32 - 1 \<and> a = 0"
        unfolding d_def by auto
      moreover have "a \<noteq> b" "a \<noteq> b + 1" using neg by (auto simp add: d_def)
      ultimately show ?thesis using lt True by simp
    next
      case False
      with w have "33 \<le> w" by simp
      then have "(2 :: int) ^ 33 \<le> m"
        unfolding m_def by (intro power_increasing) simp_all
      with dm lt neg low False show ?thesis by (auto simp add: d_def)
    qed
  qed
qed


lemma Time_before_not_window:
  assumes "Time_before a b" and "a < 2 ^ 32" and "b < 2 ^ 32"
  shows "\<not> (a = b \<or> a = b + 1 \<or> (b = 2 ^ 32 - 1 \<and> a = 0))"
  using assms by (auto simp add: Time_before_def)

lemma ulong_sub_32_word:
  "ulong_sub 32 a b = unat ((of_nat a :: 32 word) - of_nat b)"
proof -
  have "(of_nat a :: 32 word) - of_nat b = word_of_int (int a - int b)" by simp
  then show ?thesis
    by (simp only: ulong_sub_def unat_eq_nat_uint uint_word_of_int take_bit_eq_mod) simp
qed


lemma X11_KeyRepeat_iff:
  assumes "queue t = press # q" and "32 \<le> ulong_bits t"
      and "xkey_time press < 2 ^ 32" and "xkey_time release < 2 ^ 32"
  shows "X11_KeyRepeat t release \<longleftrightarrow>
           xtype press = KeyPress \<and> xkey_keycode press = xkey_keycode release \<and>
           (xkey_time press = xkey_time release \<or>
            xkey_time press = xkey_time release + 1 \<or>
            (ulong_bits t = 32 \<and> xkey_time release = 2 ^ 32 - 1 \<and> xkey_time press = 0))"
  using assms by (simp add: X11_KeyRepeat_def ulong_sub_lt2_iff)

text \<open>
  The one pair of timestamps on which the builds differ, on the sample window: with a
  32-bit unsigned long the release at \<open>2^32 - 1\<close> before the press at \<open>0\<close> is a
  repeat and no key-up is emitted; with 64 bits it is none and the key-up is emitted.
\<close>

lemma key_repeat_wrap_by_width:
  "X11_KeyRepeat ((sample_video [key_event KeyPress 38 0])\<lparr>ulong_bits := 32\<rparr>)
     (key_event KeyRelease 38 0xFFFFFFFF) \<and>
   map_option calls
     (X11_DispatchEvent
        ((sample_video [key_event KeyRelease 38 0xFFFFFFFF, key_event KeyPress 38 0])
           \<lparr>ulong_bits := 32\<rparr>)) = Some [] \<and>
   \<not> X11_KeyRepeat ((sample_video [key_event KeyPress 38 0])\<lparr>ulong_bits := 64\<rparr>)
       (key_event KeyRelease 38 0xFFFFFFFF) \<and>
   map_option calls
     (X11_DispatchEvent
        ((sample_video [key_event KeyRelease 38 0xFFFFFFFF, key_event KeyPress 38 0])
           \<lparr>ulong_bits := 64\<rparr>)) = Some [SDL_SendKeyboardKey SDL_RELEASED 38]"
  by (simp add: sample_defs dispatch_defs dispatch_KeyRelease_def X11_KeyRepeat_def
        ulong_sub_def)



text \<open>
  C10. The repeat test subtracts the release's timestamp from the peeked press's in
  unsigned arithmetic (of 32 bits where unsigned long has 32) and asks for a difference
  below 2. For a pending KeyPress whose timestamp is earlier than the release's the
  difference is at least 2, so the release is no repeat and, once it has passed the
  filter and resolved to a window, its key-up is emitted and the press stays queued.
  Earlier means: before the release in the order of the server's wrapping clock, for
  every width of unsigned long; or numerically smaller, where unsigned long is wider than
  the 32-bit timestamps.
\<close>

theorem earlier_press_is_no_repeat:
  assumes "queue s = release # press # q"
      and "xtype release = KeyRelease"
      and "xtype press = KeyPress"
      and "xkey_keycode press = xkey_keycode release"
      and "\<not> XFilterEvent s release"
      and "find_window (windowlist s) (xany_window release) = Some (i, data)"
      and "32 \<le> ulong_bits s"
      and "xkey_time press < 2 ^ 32" and "xkey_time release < 2 ^ 32"
      and "(32 < ulong_bits s \<and> xkey_time press < xkey_time release) \<or>
           Time_before (xkey_time press) (xkey_time release)"
  shows "\<not> X11_KeyRepeat (s\<lparr>queue := press # q\<rparr>) release \<and>
         ulong_sub (ulong_bits s) (xkey_time press) (xkey_time release) \<ge> 2 \<and>
         (\<exists>s'. X11_DispatchEvent s = Some s' \<and>
            emitted s s' =
              (if syswm_enabled s then [SDL_SendSysWMEvent release] else []) @
              [SDL_SendKeyboardKey SDL_RELEASED (key_layout s (ucast (xkey_keycode release)))] \<and>
            queue s' = press # q)"
proof -
  have nw: "\<not> (xkey_time press = xkey_time release \<or>
              xkey_time press = xkey_time release + 1 \<or>
              (ulong_bits s = 32 \<and> xkey_time release = 2 ^ 32 - 1 \<and> xkey_time press = 0))"
    using assms(10)
  proof
    assume "32 < ulong_bits s \<and> xkey_time press < xkey_time release"
    then show ?thesis by auto
  next
    assume "Time_before (xkey_time press) (xkey_time release)"
    from Time_before_not_window [OF this assms(8,9)] show ?thesis by blast
  qed
  then have sub: "\<not> ulong_sub (ulong_bits s) (xkey_time press) (xkey_time release) < 2"
    by (simp add: ulong_sub_lt2_iff [OF assms(7,8,9)])
  then have rep: "\<And>t. queue t = press # q \<Longrightarrow> ulong_bits t = ulong_bits s \<Longrightarrow>
                    \<not> X11_KeyRepeat t release"
    by (simp add: X11_KeyRepeat_def)
  show ?thesis
    using assms(1,2,5,6) rep sub
    by (simp add: dispatch_defs dispatch_KeyRelease_def)
qed

theorem earlier_press_is_no_repeat_witness:
  "Time_before (xkey_time (key_event KeyPress 38 990)) (xkey_time (key_event KeyRelease 38 1000)) \<and>
   ulong_bits ((sample_video [key_event KeyRelease 38 1000, key_event KeyPress 38 990])
                 \<lparr>ulong_bits := 32\<rparr>) = 32 \<and>
   (\<exists>s'. X11_DispatchEvent
           ((sample_video [key_event KeyRelease 38 1000, key_event KeyPress 38 990])
              \<lparr>ulong_bits := 32\<rparr>) = Some s' \<and>
         emitted ((sample_video [key_event KeyRelease 38 1000, key_event KeyPress 38 990])
                    \<lparr>ulong_bits := 32\<rparr>) s' =
           [SDL_SendKeyboardKey SDL_RELEASED 38]) \<and>
   xkey_time (key_event KeyPress 38 0) < xkey_time (key_event KeyRelease 38 0xFFFFFFFF) \<and>
   ulong_bits (sample_video [key_event KeyRelease 38 0xFFFFFFFF, key_event KeyPress 38 0]) = 64 \<and>
   (\<exists>s'. X11_DispatchEvent
           (sample_video [key_event KeyRelease 38 0xFFFFFFFF, key_event KeyPress 38 0]) = Some s' \<and>
         emitted (sample_video [key_event KeyRelease 38 0xFFFFFFFF, key_event KeyPress 38 0]) s' =
           [SDL_SendKeyboardKey SDL_RELEASED 38])"
proof -
  define a where "a = (sample_video [key_event KeyRelease 38 1000, key_event KeyPress 38 990])
                        \<lparr>ulong_bits := 32\<rparr>"
  define b where "b = sample_video [key_event KeyRelease 38 0xFFFFFFFF, key_event KeyPress 38 0]"
  have ha: "queue a = key_event KeyRelease 38 1000 # key_event KeyPress 38 990 # []"
       "xtype (key_event KeyRelease 38 1000) = KeyRelease"
       "xtype (key_event KeyPress 38 990) = KeyPress"
       "xkey_keycode (key_event KeyPress 38 990) = xkey_keycode (key_event KeyRelease 38 1000)"
       "\<not> XFilterEvent a (key_event KeyRelease 38 1000)"
       "find_window (windowlist a) (xany_window (key_event KeyRelease 38 1000)) =
          Some (0, sample_window)"
       "32 \<le> ulong_bits a"
       "xkey_time (key_event KeyPress 38 990) < 2 ^ 32"
       "xkey_time (key_event KeyRelease 38 1000) < 2 ^ 32"
    by (simp_all add: a_def sample_defs)
  have ta: "Time_before (xkey_time (key_event KeyPress 38 990))
              (xkey_time (key_event KeyRelease 38 1000))"
    by (simp add: Time_before_def sample_defs)
  then have ea: "(32 < ulong_bits a \<and>
                  xkey_time (key_event KeyPress 38 990) < xkey_time (key_event KeyRelease 38 1000)) \<or>
                 Time_before (xkey_time (key_event KeyPress 38 990))
                   (xkey_time (key_event KeyRelease 38 1000))"
    by simp
  have hb: "queue b = key_event KeyRelease 38 0xFFFFFFFF # key_event KeyPress 38 0 # []"
       "xtype (key_event KeyRelease 38 0xFFFFFFFF) = KeyRelease"
       "xtype (key_event KeyPress 38 0) = KeyPress"
       "xkey_keycode (key_event KeyPress 38 0) = xkey_keycode (key_event KeyRelease 38 0xFFFFFFFF)"
       "\<not> XFilterEvent b (key_event KeyRelease 38 0xFFFFFFFF)"
       "find_window (windowlist b) (xany_window (key_event KeyRelease 38 0xFFFFFFFF)) =
          Some (0, sample_window)"
       "32 \<le> ulong_bits b"
       "xkey_time (key_event KeyPress 38 0) < 2 ^ 32"
       "xkey_time (key_event KeyRelease 38 0xFFFFFFFF) < 2 ^ 32"
    by (simp_all add: b_def sample_defs)
  have lb: "xkey_time (key_event KeyPress 38 0) < xkey_time (key_event KeyRelease 38 0xFFFFFFFF)"
       "ulong_bits b = 64"
    by (simp_all add: b_def sample_defs)
  then have eb: "(32 < ulong_bits b \<and>
                  xkey_time (key_event KeyPress 38 0) <
                    xkey_time (key_event KeyRelease 38 0xFFFFFFFF)) \<or>
                 Time_before (xkey_time (key_event KeyPress 38 0))
                   (xkey_time (key_event KeyRelease 38 0xFFFFFFFF))"
    by simp
  have wa: "ulong_bits a = 32" "\<not> syswm_enabled a"
           "key_layout a (ucast (xkey_keycode (key_event KeyRelease 38 1000))) = 38"
    by (simp_all add: a_def sample_defs)
  have wb: "\<not> syswm_enabled b"
           "key_layout b (ucast (xkey_keycode (key_event KeyRelease 38 0xFFFFFFFF))) = 38"
    by (simp_all add: b_def sample_defs)
  from earlier_press_is_no_repeat [OF ha ea] wa have
    "\<exists>s'. X11_DispatchEvent a = Some s' \<and> emitted a s' = [SDL_SendKeyboardKey SDL_RELEASED 38]"
    by auto
  moreover from earlier_press_is_no_repeat [OF hb eb] wb have
    "\<exists>s'. X11_DispatchEvent b = Some s' \<and> emitted b s' = [SDL_SendKeyboardKey SDL_RELEASED 38]"
    by auto
  ultimately show ?thesis
    using ta wa(1) lb unfolding a_def b_def by blast
qed

subsection \<open>Wheel events\<close>

text \<open>
  A ButtonPress followed in the queue by a ButtonRelease of the same button with the same
  timestamp, once past the filter and resolved to a window: the release is drained, one
  wheel event is emitted and no button event. Its tick count is \<open>1\<close> for Button4,
  \<open>- 1\<close> for Button5 and the initial \<open>0\<close> of the caller's variable for any other
  button.
\<close>

lemma wheel_pair_dispatch:
  assumes "queue s = press # release # q"
      and "xtype press = ButtonPress"
      and "xtype release = ButtonRelease"
      and "xbutton_button release = xbutton_button press"
      and "xbutton_time release = xbutton_time press"
      and "\<not> XFilterEvent s press"
      and "find_window (windowlist s) (xany_window press) = Some (i, data)"
  shows "\<exists>s'. X11_DispatchEvent s = Some s' \<and>
           emitted s s' =
             (if syswm_enabled s then [SDL_SendSysWMEvent press] else []) @
             [SDL_SendMouseWheel (window data) 0
                (if xbutton_button press = Button4 then 1
                 else if xbutton_button press = Button5 then - 1 else 0)] \<and>
           queue s' = q"
  using assms
  by (simp add: dispatch_defs dispatch_ButtonPress_def X11_IsWheelEvent_def)

lemma wheel_pair_button4_and_5:
  "map_option calls
     (X11_DispatchEvent
        (sample_video [button_event ButtonPress 4 1000, button_event ButtonRelease 4 1000]))
     = Some [SDL_SendMouseWheel 1 0 1] \<and>
   map_option calls
     (X11_DispatchEvent
        (sample_video [button_event ButtonPress 5 1000, button_event ButtonRelease 5 1000]))
     = Some [SDL_SendMouseWheel 1 0 (- 1)] \<and>
   map_option calls
     (X11_DispatchEvent
        (sample_video [button_event ButtonPress 1 1000, button_event ButtonRelease 1 1001]))
     = Some [SDL_SendMouseButton 1 SDL_PRESSED 1]"
  by (simp add: sample_defs dispatch_defs dispatch_ButtonPress_def X11_IsWheelEvent_def
        Button4_def Button5_def)

text \<open>
  C1. The press and the same-time release of button 1 on the sample window: the
  dispatcher drains the release and emits a single wheel event, whose tick count is
  \<open>0\<close>, neither \<open>1\<close> nor \<open>- 1\<close>.
\<close>

theorem wheel_pair_button1_zero_ticks:
  "map_option calls
     (X11_DispatchEvent
        (sample_video [button_event ButtonPress 1 1000, button_event ButtonRelease 1 1000]))
     = Some [SDL_SendMouseWheel 1 0 0] \<and>
   map_option queue
     (X11_DispatchEvent
        (sample_video [button_event ButtonPress 1 1000, button_event ButtonRelease 1 1000]))
     = Some []"
  by (simp add: sample_defs dispatch_defs dispatch_ButtonPress_def X11_IsWheelEvent_def
        Button4_def Button5_def)

subsection \<open>Ping\<close>

text \<open>
  C6. A ClientMessage that is the window manager's ping, once past the filter and
  resolved to a window, is sent back to the root window with its window field set to the
  root window and every other field as received; nothing else is emitted for it but the
  system-message copy made of every event when the application enabled those.
\<close>

theorem ping_echo:
  assumes "queue s = xevent # q"
      and "xtype xevent = ClientMessage"
      and "xclient_message_type xevent = WM_PROTOCOLS s"
      and "xclient_format xevent = 32"
      and "xclient_data_l0 xevent = NET_WM_PING s"
      and "\<not> XFilterEvent s xevent"
      and "find_window (windowlist s) (xany_window xevent) = Some (i, data)"
  shows "\<exists>s'. X11_DispatchEvent s = Some s' \<and>
           emitted s s' =
             (if syswm_enabled s then [SDL_SendSysWMEvent xevent] else []) @
             [XSendEvent (root s) False (SubstructureRedirectMask OR SubstructureNotifyMask)
                (xevent\<lparr>xany_window := root s\<rparr>)] \<and>
           windowlist s' = windowlist s \<and>
           queue s' = q"
  using assms
  by (simp add: dispatch_defs dispatch_ClientMessage_def)

theorem ping_echo_witness:
  "queue (sample_video [ping_event]) = [ping_event] \<and>
   xtype ping_event = ClientMessage \<and>
   xclient_message_type ping_event = WM_PROTOCOLS (sample_video [ping_event]) \<and>
   xclient_format ping_event = 32 \<and>
   xclient_data_l0 ping_event = NET_WM_PING (sample_video [ping_event]) \<and>
   \<not> XFilterEvent (sample_video [ping_event]) ping_event \<and>
   find_window (windowlist (sample_video [ping_event])) (xany_window ping_event)
     = Some (0, sample_window) \<and>
   (\<exists>s'. X11_DispatchEvent (sample_video [ping_event]) = Some s' \<and>
      emitted (sample_video [ping_event]) s' =
        [XSendEvent 2 False (SubstructureRedirectMask OR SubstructureNotifyMask)
           (ping_event\<lparr>xany_window := 2\<rparr>)])"
proof -
  have h: "queue (sample_video [ping_event]) = ping_event # []"
       "xtype ping_event = ClientMessage"
       "xclient_message_type ping_event = WM_PROTOCOLS (sample_video [ping_event])"
       "xclient_format ping_event = 32"
       "xclient_data_l0 ping_event = NET_WM_PING (sample_video [ping_event])"
       "\<not> XFilterEvent (sample_video [ping_event]) ping_event"
       "find_window (windowlist (sample_video [ping_event])) (xany_window ping_event)
          = Some (0, sample_window)"
    by (simp_all add: sample_defs)
  from ping_echo [OF h] h show ?thesis
    by (auto simp add: sample_defs)
qed

theorem ping_echo_counterexample:
  "map_option calls (X11_DispatchEvent (sample_video [ping_event])) =
     Some [XSendEvent 2 False (SubstructureRedirectMask OR SubstructureNotifyMask)
             (ping_event\<lparr>xany_window := 2\<rparr>)] \<and>
   ping_event\<lparr>xany_window := 2\<rparr> \<noteq> ping_event \<and>
   map_option calls (X11_DispatchEvent ((sample_video [ping_event])\<lparr>syswm_enabled := True\<rparr>)) =
     Some [SDL_SendSysWMEvent ping_event,
           XSendEvent 2 False (SubstructureRedirectMask OR SubstructureNotifyMask)
             (ping_event\<lparr>xany_window := 2\<rparr>)]"
proof -
  have "xany_window (ping_event\<lparr>xany_window := 2\<rparr>) \<noteq> xany_window ping_event"
    by (simp add: sample_defs)
  then have "ping_event\<lparr>xany_window := 2\<rparr> \<noteq> ping_event" by metis
  then show ?thesis
    by (simp add: sample_defs dispatch_defs dispatch_ClientMessage_def)
qed

subsection \<open>Focus debouncing\<close>

text \<open>
  \<open>find_window\<close> returns the first entry with the handle, so it gives the same index
  in any list with the same handles at the same places.
\<close>

lemma find_window_iff:
  "find_window ws w = Some (i, d) \<longleftrightarrow>
     i < length ws \<and> ws ! i = Some d \<and> xwindow d = w \<and>
     (\<forall>j<i. \<forall>d'. ws ! j = Some d' \<longrightarrow> xwindow d' \<noteq> w)"
proof (induction ws w arbitrary: i d rule: find_window.induct)
  case (1 w)
  then show ?case by simp
next
  case (2 ds w)
  show ?case
  proof (cases i)
    case 0
    then show ?thesis by auto
  next
    case (Suc k)
    then show ?thesis using 2 [of k d] by (auto simp add: All_less_Suc2)
  qed
next
  case (3 d0 ds w)
  show ?case
  proof (cases i)
    case 0
    then show ?thesis by auto
  next
    case (Suc k)
    then show ?thesis using 3 [of k d] by (auto simp add: All_less_Suc2)
  qed
qed

lemma find_window_same_handles:
  assumes "find_window ws w = Some (i, d)"
      and "length ws' = length ws"
      and "\<And>j. map_option xwindow (ws' ! j) = map_option xwindow (ws ! j)"
      and "ws' ! i = Some d'"
  shows "find_window ws' w = Some (i, d')"
proof -
  from assms(1) have a: "i < length ws" "ws ! i = Some d" "xwindow d = w"
      "\<forall>j<i. \<forall>e. ws ! j = Some e \<longrightarrow> xwindow e \<noteq> w"
    by (simp_all add: find_window_iff)
  have "xwindow d' = w"
    using assms(3) [of i] a(2,3) assms(4) by simp
  moreover have "\<forall>j<i. \<forall>e. ws' ! j = Some e \<longrightarrow> xwindow e \<noteq> w"
  proof (intro allI impI)
    fix j e assume "j < i" "ws' ! j = Some e"
    with assms(3) [of j] obtain e0 where "ws ! j = Some e0" "xwindow e0 = xwindow e"
      by (cases "ws ! j") auto
    with a(4) \<open>j < i\<close> show "xwindow e \<noteq> w" by auto
  qed
  ultimately show ?thesis
    using a(1) assms(2,4) by (simp add: find_window_iff)
qed

lemmas focus_helper_defs =
  X11_DispatchFocusIn_def X11_DispatchFocusOut_def emit_def set_data_def SDL_GetTicks_def Let_def

lemma HandleFocusChanges_at_frame:
  "length (windowlist (HandleFocusChanges_at j s)) = length (windowlist s)"
  "clock (HandleFocusChanges_at j s) = clock s"
  "reads s \<le> reads (HandleFocusChanges_at j s)"
  "PENDING_FOCUS_IN_TIME (HandleFocusChanges_at j s) = PENDING_FOCUS_IN_TIME s"
  "XFilterEvent (HandleFocusChanges_at j s) = XFilterEvent s"
  "i \<noteq> j \<Longrightarrow> windowlist (HandleFocusChanges_at j s) ! i = windowlist s ! i"
  by (auto simp add: HandleFocusChanges_at_def focus_helper_defs split: option.splits)

lemma HandleFocusChanges_at_entry:
  "windowlist (HandleFocusChanges_at j s) ! j = windowlist s ! j \<or>
   (\<exists>d. windowlist s ! j = Some d \<and> pending_focus d \<noteq> PENDING_FOCUS_NONE \<and>
        reads s < reads (HandleFocusChanges_at j s) \<and>
        sint (pending_focus_time d - clock s (reads s)) \<le> 0 \<and>
        windowlist (HandleFocusChanges_at j s) ! j = Some (d\<lparr>pending_focus := PENDING_FOCUS_NONE\<rparr>))"
proof (cases "windowlist s ! j")
  case None
  then show ?thesis by (simp add: HandleFocusChanges_at_def)
next
  case (Some d)
  show ?thesis
  proof (cases "j < length (windowlist s)")
    case True
    with Some show ?thesis
      by (simp add: HandleFocusChanges_at_def focus_helper_defs split: option.splits)
  next
    case False
    then have "\<And>v. (windowlist s)[j := v] = windowlist s" by (simp add: list_update_beyond)
    with Some show ?thesis
      by (simp add: HandleFocusChanges_at_def focus_helper_defs split: option.splits)
  qed
qed

lemma HandleFocusChanges_at_calls:
  "\<exists>xs. calls (HandleFocusChanges_at j s) = calls s @ xs \<and>
        (\<forall>i. Dispatching_FocusOut i \<in> set xs \<longrightarrow>
           i = j \<and> (\<exists>d. windowlist s ! j = Some d \<and> pending_focus d = PENDING_FOCUS_OUT \<and>
                      reads s < reads (HandleFocusChanges_at j s) \<and>
                      sint (pending_focus_time d - clock s (reads s)) \<le> 0))"
proof (cases "windowlist s ! j")
  case None
  then show ?thesis by (simp add: HandleFocusChanges_at_def)
next
  case (Some d)
  then show ?thesis
    by (cases "pending_focus d"; cases "ic d")
       (auto simp add: HandleFocusChanges_at_def focus_helper_defs)
qed


lemma focus_loop:
  "length (windowlist (foldl (\<lambda>s' j. HandleFocusChanges_at j s') s [0..<n])) = length (windowlist s) \<and>
   clock (foldl (\<lambda>s' j. HandleFocusChanges_at j s') s [0..<n]) = clock s \<and>
   reads s \<le> reads (foldl (\<lambda>s' j. HandleFocusChanges_at j s') s [0..<n]) \<and>
   PENDING_FOCUS_IN_TIME (foldl (\<lambda>s' j. HandleFocusChanges_at j s') s [0..<n]) =
     PENDING_FOCUS_IN_TIME s \<and>
   XFilterEvent (foldl (\<lambda>s' j. HandleFocusChanges_at j s') s [0..<n]) = XFilterEvent s \<and>
   (\<forall>i. n \<le> i \<longrightarrow>
      windowlist (foldl (\<lambda>s' j. HandleFocusChanges_at j s') s [0..<n]) ! i = windowlist s ! i) \<and>
   (\<forall>i. windowlist (foldl (\<lambda>s' j. HandleFocusChanges_at j s') s [0..<n]) ! i = windowlist s ! i \<or>
      (\<exists>d r. windowlist s ! i = Some d \<and> pending_focus d \<noteq> PENDING_FOCUS_NONE \<and>
         reads s \<le> r \<and> r < reads (foldl (\<lambda>s' j. HandleFocusChanges_at j s') s [0..<n]) \<and>
         sint (pending_focus_time d - clock s r) \<le> 0 \<and>
         windowlist (foldl (\<lambda>s' j. HandleFocusChanges_at j s') s [0..<n]) ! i =
           Some (d\<lparr>pending_focus := PENDING_FOCUS_NONE\<rparr>))) \<and>
   (\<exists>xs. calls (foldl (\<lambda>s' j. HandleFocusChanges_at j s') s [0..<n]) = calls s @ xs \<and>
      (\<forall>i. Dispatching_FocusOut i \<in> set xs \<longrightarrow>
         (\<exists>d r. windowlist s ! i = Some d \<and> pending_focus d = PENDING_FOCUS_OUT \<and>
            reads s \<le> r \<and> r < reads (foldl (\<lambda>s' j. HandleFocusChanges_at j s') s [0..<n]) \<and>
            sint (pending_focus_time d - clock s r) \<le> 0)))"
proof (induction n)
  case 0
  show ?case by simp
next
  case (Suc n)
  define t where "t = foldl (\<lambda>s' j. HandleFocusChanges_at j s') s [0..<n]"
  define u where "u = HandleFocusChanges_at n t"
  have u: "foldl (\<lambda>s' j. HandleFocusChanges_at j s') s [0..<Suc n] = u"
    by (simp add: t_def u_def)
  from Suc [folded t_def] have
    len: "length (windowlist t) = length (windowlist s)" and
    clk: "clock t = clock s" and
    rds: "reads s \<le> reads t" and
    pin: "PENDING_FOCUS_IN_TIME t = PENDING_FOCUS_IN_TIME s" and
    flt: "XFilterEvent t = XFilterEvent s" and
    rest: "\<forall>i. n \<le> i \<longrightarrow> windowlist t ! i = windowlist s ! i" and
    ent: "\<forall>i. windowlist t ! i = windowlist s ! i \<or>
      (\<exists>d r. windowlist s ! i = Some d \<and> pending_focus d \<noteq> PENDING_FOCUS_NONE \<and>
         reads s \<le> r \<and> r < reads t \<and> sint (pending_focus_time d - clock s r) \<le> 0 \<and>
         windowlist t ! i = Some (d\<lparr>pending_focus := PENDING_FOCUS_NONE\<rparr>))" and
    cls: "\<exists>xs. calls t = calls s @ xs \<and>
      (\<forall>i. Dispatching_FocusOut i \<in> set xs \<longrightarrow>
         (\<exists>d r. windowlist s ! i = Some d \<and> pending_focus d = PENDING_FOCUS_OUT \<and>
            reads s \<le> r \<and> r < reads t \<and> sint (pending_focus_time d - clock s r) \<le> 0))"
    by blast+
  have mono: "reads t \<le> reads u"
    by (simp add: u_def HandleFocusChanges_at_frame)
  have n_same: "windowlist t ! n = windowlist s ! n" using rest by simp
  have 1: "length (windowlist u) = length (windowlist s)"
    by (simp add: u_def HandleFocusChanges_at_frame len)
  have 2: "clock u = clock s" by (simp add: u_def HandleFocusChanges_at_frame clk)
  have 3: "reads s \<le> reads u" using rds mono by simp
  have 4: "PENDING_FOCUS_IN_TIME u = PENDING_FOCUS_IN_TIME s"
    by (simp add: u_def HandleFocusChanges_at_frame pin)
  have 5: "XFilterEvent u = XFilterEvent s"
    by (simp add: u_def HandleFocusChanges_at_frame flt)
  have 6: "\<forall>i. Suc n \<le> i \<longrightarrow> windowlist u ! i = windowlist s ! i"
    using rest by (simp add: u_def HandleFocusChanges_at_frame)
  have 7: "\<forall>i. windowlist u ! i = windowlist s ! i \<or>
      (\<exists>d r. windowlist s ! i = Some d \<and> pending_focus d \<noteq> PENDING_FOCUS_NONE \<and>
         reads s \<le> r \<and> r < reads u \<and> sint (pending_focus_time d - clock s r) \<le> 0 \<and>
         windowlist u ! i = Some (d\<lparr>pending_focus := PENDING_FOCUS_NONE\<rparr>))"
  proof
    fix i
    show "windowlist u ! i = windowlist s ! i \<or>
      (\<exists>d r. windowlist s ! i = Some d \<and> pending_focus d \<noteq> PENDING_FOCUS_NONE \<and>
         reads s \<le> r \<and> r < reads u \<and> sint (pending_focus_time d - clock s r) \<le> 0 \<and>
         windowlist u ! i = Some (d\<lparr>pending_focus := PENDING_FOCUS_NONE\<rparr>))"
    proof (cases "i = n")
      case True
      from HandleFocusChanges_at_entry [of n t] show ?thesis
        unfolding u_def [symmetric] True n_same clk
        using rds by blast
    next
      case False
      then have "windowlist u ! i = windowlist t ! i"
        by (simp add: u_def HandleFocusChanges_at_frame)
      with ent [rule_format, of i] mono show ?thesis
        by (metis less_le_trans)
    qed
  qed
  from cls obtain xs where xs: "calls t = calls s @ xs"
      "\<forall>i. Dispatching_FocusOut i \<in> set xs \<longrightarrow>
         (\<exists>d r. windowlist s ! i = Some d \<and> pending_focus d = PENDING_FOCUS_OUT \<and>
            reads s \<le> r \<and> r < reads t \<and> sint (pending_focus_time d - clock s r) \<le> 0)"
    by blast
  from HandleFocusChanges_at_calls [of n t] obtain ys where ys: "calls u = calls t @ ys"
      "\<forall>i. Dispatching_FocusOut i \<in> set ys \<longrightarrow>
           i = n \<and> (\<exists>d. windowlist s ! n = Some d \<and> pending_focus d = PENDING_FOCUS_OUT \<and>
                      reads t < reads u \<and>
                      sint (pending_focus_time d - clock s (reads t)) \<le> 0)"
    unfolding u_def [symmetric] n_same clk by blast
  have 8: "\<exists>zs. calls u = calls s @ zs \<and>
      (\<forall>i. Dispatching_FocusOut i \<in> set zs \<longrightarrow>
         (\<exists>d r. windowlist s ! i = Some d \<and> pending_focus d = PENDING_FOCUS_OUT \<and>
            reads s \<le> r \<and> r < reads u \<and> sint (pending_focus_time d - clock s r) \<le> 0))"
  proof (intro exI [of _ "xs @ ys"] conjI allI impI)
    show "calls u = calls s @ xs @ ys" using xs(1) ys(1) by simp
  next
    fix i assume "Dispatching_FocusOut i \<in> set (xs @ ys)"
    then consider "Dispatching_FocusOut i \<in> set xs" | "Dispatching_FocusOut i \<in> set ys"
      by auto
    then show "\<exists>d r. windowlist s ! i = Some d \<and> pending_focus d = PENDING_FOCUS_OUT \<and>
            reads s \<le> r \<and> r < reads u \<and> sint (pending_focus_time d - clock s r) \<le> 0"
    proof cases
      case 1
      with xs(2) mono show ?thesis by (metis less_le_trans)
    next
      case 2
      with ys(2) rds show ?thesis by blast
    qed
  qed
  show ?case unfolding u using 1 2 3 4 5 6 7 8 by blast
qed


lemma HandleFocusChanges_frame:
  "length (windowlist (X11_HandleFocusChanges s)) = length (windowlist s)"
  "clock (X11_HandleFocusChanges s) = clock s"
  "reads s \<le> reads (X11_HandleFocusChanges s)"
  "PENDING_FOCUS_IN_TIME (X11_HandleFocusChanges s) = PENDING_FOCUS_IN_TIME s"
  "XFilterEvent (X11_HandleFocusChanges s) = XFilterEvent s"
  using focus_loop [of s "length (windowlist s)"]
  by (simp_all add: X11_HandleFocusChanges_def)

lemma HandleFocusChanges_entry:
  "windowlist (X11_HandleFocusChanges s) ! i = windowlist s ! i \<or>
   (\<exists>d r. windowlist s ! i = Some d \<and> pending_focus d \<noteq> PENDING_FOCUS_NONE \<and>
      reads s \<le> r \<and> r < reads (X11_HandleFocusChanges s) \<and>
      sint (pending_focus_time d - clock s r) \<le> 0 \<and>
      windowlist (X11_HandleFocusChanges s) ! i = Some (d\<lparr>pending_focus := PENDING_FOCUS_NONE\<rparr>))"
  using focus_loop [of s "length (windowlist s)"]
  unfolding X11_HandleFocusChanges_def by blast

lemma HandleFocusChanges_calls:
  "\<exists>xs. calls (X11_HandleFocusChanges s) = calls s @ xs \<and>
      (\<forall>i. Dispatching_FocusOut i \<in> set xs \<longrightarrow>
         (\<exists>d r. windowlist s ! i = Some d \<and> pending_focus d = PENDING_FOCUS_OUT \<and>
            reads s \<le> r \<and> r < reads (X11_HandleFocusChanges s) \<and>
            sint (pending_focus_time d - clock s r) \<le> 0))"
  using focus_loop [of s "length (windowlist s)"]
  unfolding X11_HandleFocusChanges_def by blast

lemma HandleFocusChanges_handles:
  "map_option xwindow (windowlist (X11_HandleFocusChanges s) ! j) =
   map_option xwindow (windowlist s ! j)"
  using HandleFocusChanges_entry [of s j] by auto

lemma debounce_before_deadline:
  assumes "windowlist s ! i = Some d"
      and "\<forall>r. reads s \<le> r \<and> r < reads (X11_HandleFocusChanges s) \<longrightarrow>
             0 < sint (pending_focus_time d - clock s r)"
  shows "windowlist (X11_HandleFocusChanges s) ! i = Some d \<and>
         (\<exists>xs. calls (X11_HandleFocusChanges s) = calls s @ xs \<and>
                Dispatching_FocusOut i \<notin> set xs)"
proof
  from HandleFocusChanges_entry [of s i] assms
  show "windowlist (X11_HandleFocusChanges s) ! i = Some d"
    by (auto simp add: not_le [symmetric])
  from HandleFocusChanges_calls [of s] assms
  show "\<exists>xs. calls (X11_HandleFocusChanges s) = calls s @ xs \<and>
          Dispatching_FocusOut i \<notin> set xs"
    by (metis not_le option.inject)
qed

lemma debounce_no_pending_out:
  assumes "windowlist s ! i = Some d" and "pending_focus d \<noteq> PENDING_FOCUS_OUT"
  shows "(\<exists>d'. windowlist (X11_HandleFocusChanges s) ! i = Some d' \<and>
               pending_focus d' \<noteq> PENDING_FOCUS_OUT) \<and>
         (\<exists>xs. calls (X11_HandleFocusChanges s) = calls s @ xs \<and>
                Dispatching_FocusOut i \<notin> set xs)"
proof
  from HandleFocusChanges_entry [of s i] assms
  show "\<exists>d'. windowlist (X11_HandleFocusChanges s) ! i = Some d' \<and>
          pending_focus d' \<noteq> PENDING_FOCUS_OUT"
    by auto
  from HandleFocusChanges_calls [of s] assms
  show "\<exists>xs. calls (X11_HandleFocusChanges s) = calls s @ xs \<and>
          Dispatching_FocusOut i \<notin> set xs"
    by (metis option.inject)
qed

lemma debounce_runs_before_deadline:
  assumes "windowlist s ! i = Some d"
      and "\<forall>r. reads s \<le> r \<and> r < reads ((X11_HandleFocusChanges ^^ n) s) \<longrightarrow>
             0 < sint (pending_focus_time d - clock s r)"
  shows "windowlist ((X11_HandleFocusChanges ^^ n) s) ! i = Some d \<and>
         length (windowlist ((X11_HandleFocusChanges ^^ n) s)) = length (windowlist s) \<and>
         clock ((X11_HandleFocusChanges ^^ n) s) = clock s \<and>
         reads s \<le> reads ((X11_HandleFocusChanges ^^ n) s) \<and>
         PENDING_FOCUS_IN_TIME ((X11_HandleFocusChanges ^^ n) s) = PENDING_FOCUS_IN_TIME s \<and>
         (\<forall>j. map_option xwindow (windowlist ((X11_HandleFocusChanges ^^ n) s) ! j) =
               map_option xwindow (windowlist s ! j)) \<and>
         (\<exists>xs. calls ((X11_HandleFocusChanges ^^ n) s) = calls s @ xs \<and>
                Dispatching_FocusOut i \<notin> set xs)"
  using assms(2)
proof (induction n)
  case 0
  show ?case using assms(1) by simp
next
  case (Suc n)
  define t where "t = (X11_HandleFocusChanges ^^ n) s"
  have u: "(X11_HandleFocusChanges ^^ Suc n) s = X11_HandleFocusChanges t"
    by (simp add: t_def)
  have mono: "reads t \<le> reads (X11_HandleFocusChanges t)"
    by (rule HandleFocusChanges_frame)
  have early: "\<forall>r. reads s \<le> r \<and> r < reads (X11_HandleFocusChanges t) \<longrightarrow>
      0 < sint (pending_focus_time d - clock s r)"
    using Suc.prems unfolding u .
  then have "\<forall>r. reads s \<le> r \<and> r < reads t \<longrightarrow> 0 < sint (pending_focus_time d - clock s r)"
    using mono by auto
  from Suc.IH [folded t_def, OF this] have
    ent: "windowlist t ! i = Some d" and
    len: "length (windowlist t) = length (windowlist s)" and
    clk: "clock t = clock s" and
    rds: "reads s \<le> reads t" and
    pin: "PENDING_FOCUS_IN_TIME t = PENDING_FOCUS_IN_TIME s" and
    hdl: "\<forall>j. map_option xwindow (windowlist t ! j) = map_option xwindow (windowlist s ! j)" and
    cls: "\<exists>xs. calls t = calls s @ xs \<and> Dispatching_FocusOut i \<notin> set xs"
    by blast+
  have "\<forall>r. reads t \<le> r \<and> r < reads (X11_HandleFocusChanges t) \<longrightarrow>
      0 < sint (pending_focus_time d - clock t r)"
    using early rds clk by auto
  from debounce_before_deadline [OF ent this] have
    ent': "windowlist (X11_HandleFocusChanges t) ! i = Some d" and
    cls': "\<exists>xs. calls (X11_HandleFocusChanges t) = calls t @ xs \<and>
                Dispatching_FocusOut i \<notin> set xs"
    by blast+
  from cls cls' have c: "\<exists>xs. calls (X11_HandleFocusChanges t) = calls s @ xs \<and>
                Dispatching_FocusOut i \<notin> set xs"
    by (metis Un_iff append.assoc set_append)
  have rds': "reads s \<le> reads (X11_HandleFocusChanges t)"
    using rds mono by (rule order_trans)
  show ?case
    unfolding u
    using ent' c len clk rds' pin hdl
    by (simp add: HandleFocusChanges_frame HandleFocusChanges_handles)
qed

lemma debounce_runs_no_pending_out:
  assumes "windowlist s ! i = Some d" and "pending_focus d \<noteq> PENDING_FOCUS_OUT"
  shows "(\<exists>d'. windowlist ((X11_HandleFocusChanges ^^ m) s) ! i = Some d' \<and>
               pending_focus d' \<noteq> PENDING_FOCUS_OUT) \<and>
         (\<exists>xs. calls ((X11_HandleFocusChanges ^^ m) s) = calls s @ xs \<and>
                Dispatching_FocusOut i \<notin> set xs)"
proof (induction m)
  case 0
  show ?case using assms by simp
next
  case (Suc m)
  define t where "t = (X11_HandleFocusChanges ^^ m) s"
  from Suc [folded t_def] obtain d' xs where
    t: "windowlist t ! i = Some d'" "pending_focus d' \<noteq> PENDING_FOCUS_OUT"
       "calls t = calls s @ xs" "Dispatching_FocusOut i \<notin> set xs"
    by blast
  from debounce_no_pending_out [OF t(1,2)] obtain d'' ys where
    u: "windowlist (X11_HandleFocusChanges t) ! i = Some d''"
       "pending_focus d'' \<noteq> PENDING_FOCUS_OUT"
       "calls (X11_HandleFocusChanges t) = calls t @ ys" "Dispatching_FocusOut i \<notin> set ys"
    by blast
  have "calls (X11_HandleFocusChanges t) = calls s @ (xs @ ys)"
       "Dispatching_FocusOut i \<notin> set (xs @ ys)"
    using t u by simp_all
  with u(1,2) show ?case
    unfolding funpow.simps o_apply t_def [symmetric] by blast
qed

lemma dispatch_focus_event:
  assumes "queue s = e # q"
      and "xtype e = FocusIn \<or> xtype e = FocusOut"
      and "xfocus_detail e \<noteq> NotifyInferior"
      and "\<not> XFilterEvent s e"
      and "find_window (windowlist s) (xany_window e) = Some (i, d)"
  shows "\<exists>s'. X11_DispatchEvent s = Some s' \<and>
           windowlist s' = (windowlist s)
             [i := Some (d\<lparr>pending_focus :=
                              (if xtype e = FocusIn then PENDING_FOCUS_IN else PENDING_FOCUS_OUT),
                            pending_focus_time :=
                              clock s (reads s) +
                              (if xtype e = FocusIn then PENDING_FOCUS_IN_TIME s
                               else PENDING_FOCUS_OUT_TIME s)\<rparr>)] \<and>
           clock s' = clock s \<and> reads s' = Suc (reads s) \<and>
           PENDING_FOCUS_IN_TIME s' = PENDING_FOCUS_IN_TIME s \<and>
           XFilterEvent s' = XFilterEvent s \<and>
           emitted s s' =
             (if syswm_enabled s then [SDL_SendSysWMEvent e] else []) @
             (if xtype e = FocusIn \<and> pending_focus d = PENDING_FOCUS_OUT \<and>
                 keyboard_focus s = Some (window d)
              then [SDL_ResetKeyboard] else []) \<and>
           calls s' = calls s @ emitted s s'"
  using assms
  by (auto simp add: dispatch_defs dispatch_FocusIn_def dispatch_FocusOut_def SDL_GetTicks_def)

text \<open>
  C3. A window's pending focus transition is the one field \<open>pending_focus\<close> with its
  one deadline. Every FocusIn or FocusOut that is not ignored (detail other than
  NotifyInferior, past the filter, resolved to a window) sets that field to In or Out,
  whatever it held, and the deadline to the tick count read at that moment plus the
  delay of its kind. Hence the scenario: a FocusOut is dispatched; the debouncer runs any
  number of times, each time reading a tick count that the signed comparison of the
  source puts before the deadline; a FocusIn for the same native window is dispatched.
  Then the window is pending In with the deadline counted from the FocusIn, and from the
  FocusOut on, through any number of later debouncer runs, \<open>X11_DispatchFocusOut\<close> is
  never entered for that window.
\<close>

theorem focus_out_then_in:
  assumes out: "queue s0 = out_ev # q0" "xtype out_ev = FocusOut"
               "xfocus_detail out_ev \<noteq> NotifyInferior" "\<not> XFilterEvent s0 out_ev"
               "find_window (windowlist s0) (xany_window out_ev) = Some (i, d0)"
      and s1: "X11_DispatchEvent s0 = Some s1"
      and s2: "s2 = (X11_HandleFocusChanges ^^ n) s1"
      and early: "\<forall>r. reads s1 \<le> r \<and> r < reads s2 \<longrightarrow>
                    0 < sint (clock s0 (reads s0) + PENDING_FOCUS_OUT_TIME s0 - clock s0 r)"
      and inn: "xtype in_ev = FocusIn" "xfocus_detail in_ev \<noteq> NotifyInferior"
               "xany_window in_ev = xany_window out_ev" "\<not> XFilterEvent s2 in_ev"
      and s3: "X11_DispatchEvent (s2\<lparr>queue := in_ev # q2\<rparr>) = Some s3"
  shows "(\<forall>s e q j d.
            queue s = e # q \<and> (xtype e = FocusIn \<or> xtype e = FocusOut) \<and>
            xfocus_detail e \<noteq> NotifyInferior \<and> \<not> XFilterEvent s e \<and>
            find_window (windowlist s) (xany_window e) = Some (j, d) \<longrightarrow>
            (\<exists>s'. X11_DispatchEvent s = Some s' \<and>
               windowlist s' = (windowlist s)
                 [j := Some (d\<lparr>pending_focus :=
                                  (if xtype e = FocusIn then PENDING_FOCUS_IN
                                   else PENDING_FOCUS_OUT),
                                pending_focus_time :=
                                  clock s (reads s) +
                                  (if xtype e = FocusIn then PENDING_FOCUS_IN_TIME s
                                   else PENDING_FOCUS_OUT_TIME s)\<rparr>)])) \<and>
         windowlist s1 ! i =
           Some (d0\<lparr>pending_focus := PENDING_FOCUS_OUT,
                    pending_focus_time := clock s0 (reads s0) + PENDING_FOCUS_OUT_TIME s0\<rparr>) \<and>
         windowlist s3 ! i =
           Some (d0\<lparr>pending_focus := PENDING_FOCUS_IN,
                    pending_focus_time := clock s0 (reads s2) + PENDING_FOCUS_IN_TIME s0\<rparr>) \<and>
         (\<forall>m. Dispatching_FocusOut i \<notin> set (emitted s0 ((X11_HandleFocusChanges ^^ m) s3)))"
proof (intro conjI allI impI)
  fix s :: SDL_VideoData and e :: XEvent and q :: "XEvent list" and j :: nat
    and d :: SDL_WindowData
  assume "queue s = e # q \<and> (xtype e = FocusIn \<or> xtype e = FocusOut) \<and>
            xfocus_detail e \<noteq> NotifyInferior \<and> \<not> XFilterEvent s e \<and>
            find_window (windowlist s) (xany_window e) = Some (j, d)"
  then show "\<exists>s'. X11_DispatchEvent s = Some s' \<and>
               windowlist s' = (windowlist s)
                 [j := Some (d\<lparr>pending_focus :=
                                  (if xtype e = FocusIn then PENDING_FOCUS_IN
                                   else PENDING_FOCUS_OUT),
                                pending_focus_time :=
                                  clock s (reads s) +
                                  (if xtype e = FocusIn then PENDING_FOCUS_IN_TIME s
                                   else PENDING_FOCUS_OUT_TIME s)\<rparr>)]"
    using dispatch_focus_event [of s e q j d] by blast
next
  define d1 where "d1 = d0\<lparr>pending_focus := PENDING_FOCUS_OUT,
                    pending_focus_time := clock s0 (reads s0) + PENDING_FOCUS_OUT_TIME s0\<rparr>"
  from find_window_Some [OF out(5)] have i: "i < length (windowlist s0)"
      "windowlist s0 ! i = Some d0" by simp_all
  from dispatch_focus_event [OF out(1) _ out(3,4,5)] out(2) s1 have
    w1: "windowlist s1 = (windowlist s0)[i := Some d1]" and
    clk1: "clock s1 = clock s0" and rds1: "reads s1 = Suc (reads s0)" and
    pin1: "PENDING_FOCUS_IN_TIME s1 = PENDING_FOCUS_IN_TIME s0" and
    c1: "calls s1 = calls s0 @ emitted s0 s1" and
    e1: "Dispatching_FocusOut i \<notin> set (emitted s0 s1)"
    by (auto simp add: d1_def)
  show ent1: "windowlist s1 ! i = Some d1" using w1 i by simp
  have "\<forall>r. reads s1 \<le> r \<and> r < reads ((X11_HandleFocusChanges ^^ n) s1) \<longrightarrow>
             0 < sint (pending_focus_time d1 - clock s1 r)"
    using early by (simp add: s2 clk1 d1_def)
  from debounce_runs_before_deadline [OF ent1 this, folded s2] obtain xs where
    ent2: "windowlist s2 ! i = Some d1" and
    len2: "length (windowlist s2) = length (windowlist s1)" and
    clk2: "clock s2 = clock s1" and
    pin2: "PENDING_FOCUS_IN_TIME s2 = PENDING_FOCUS_IN_TIME s1" and
    hdl2: "\<forall>j. map_option xwindow (windowlist s2 ! j) = map_option xwindow (windowlist s1 ! j)" and
    c2: "calls s2 = calls s1 @ xs" "Dispatching_FocusOut i \<notin> set xs"
    by blast
  have hdl: "map_option xwindow (windowlist s2 ! j) = map_option xwindow (windowlist s0 ! j)" for j
  proof (cases "j = i")
    case True
    then show ?thesis using ent2 i by (simp add: d1_def)
  next
    case False
    then show ?thesis using hdl2 w1 by simp
  qed
  have fw: "find_window (windowlist s2) (xany_window in_ev) = Some (i, d1)"
    using find_window_same_handles [OF out(5) _ hdl ent2] len2 w1 inn(3) by simp
  define t where "t = s2\<lparr>queue := in_ev # q2\<rparr>"
  have t: "queue t = in_ev # q2" "\<not> XFilterEvent t in_ev"
      "find_window (windowlist t) (xany_window in_ev) = Some (i, d1)"
    using inn(4) fw by (simp_all add: t_def)
  from dispatch_focus_event [OF t(1) _ inn(2) t(2,3)] inn(1) s3 have
    w3: "windowlist s3 = (windowlist t)
           [i := Some (d1\<lparr>pending_focus := PENDING_FOCUS_IN,
                          pending_focus_time := clock t (reads t) + PENDING_FOCUS_IN_TIME t\<rparr>)]" and
    c3: "calls s3 = calls t @ emitted t s3" and
    e3: "Dispatching_FocusOut i \<notin> set (emitted t s3)"
    by (auto simp add: t_def)
  have it: "i < length (windowlist t)" using i len2 w1 by (simp add: t_def)
  define d3 where "d3 = d0\<lparr>pending_focus := PENDING_FOCUS_IN,
                    pending_focus_time := clock s0 (reads s2) + PENDING_FOCUS_IN_TIME s0\<rparr>"
  show ent3: "windowlist s3 ! i = Some d3"
    using w3 it by (simp add: t_def d1_def d3_def clk2 clk1 pin2 pin1)
  have p3: "pending_focus d3 \<noteq> PENDING_FOCUS_OUT" by (simp add: d3_def)
  fix m
  from debounce_runs_no_pending_out [OF ent3 p3, of m] obtain ys where
    c4: "calls ((X11_HandleFocusChanges ^^ m) s3) = calls s3 @ ys"
        "Dispatching_FocusOut i \<notin> set ys"
    by blast
  have "calls ((X11_HandleFocusChanges ^^ m) s3) =
          calls s0 @ (emitted s0 s1 @ xs @ emitted t s3 @ ys)"
    using c1 c2(1) c3 c4(1) by (simp add: t_def)
  then have "emitted s0 ((X11_HandleFocusChanges ^^ m) s3) = emitted s0 s1 @ xs @ emitted t s3 @ ys"
    by (simp add: emitted_def)
  then show "Dispatching_FocusOut i \<notin> set (emitted s0 ((X11_HandleFocusChanges ^^ m) s3))"
    using e1 c2(2) e3 c4(2) by simp
qed


theorem focus_out_then_in_witness:
  "\<exists>s1 s3.
     X11_DispatchEvent (sample_video [focus_event FocusOut]) = Some s1 \<and>
     windowlist s1 ! 0 =
       Some (sample_window\<lparr>pending_focus := PENDING_FOCUS_OUT, pending_focus_time := 200\<rparr>) \<and>
     reads s1 = 1 \<and> reads (X11_HandleFocusChanges s1) = 2 \<and> clock s1 1 = 50 \<and>
     X11_DispatchEvent ((X11_HandleFocusChanges s1)\<lparr>queue := [focus_event FocusIn]\<rparr>) = Some s3 \<and>
     windowlist s3 ! 0 =
       Some (sample_window\<lparr>pending_focus := PENDING_FOCUS_IN, pending_focus_time := 300\<rparr>) \<and>
     Dispatching_FocusOut 0 \<notin>
       set (emitted (sample_video [focus_event FocusOut]) ((X11_HandleFocusChanges ^^ 3) s3))"
proof -
  define s0 where "s0 = sample_video [focus_event FocusOut]"
  define s1 where "s1 = dispatch_xevent (focus_event FocusOut) (s0\<lparr>queue := []\<rparr>)"
  define s2 where "s2 = (X11_HandleFocusChanges ^^ Suc 0) s1"
  define s3 where "s3 = dispatch_xevent (focus_event FocusIn) (s2\<lparr>queue := []\<rparr>)"
  have h: "queue s0 = focus_event FocusOut # []" "xtype (focus_event FocusOut) = FocusOut"
      "xfocus_detail (focus_event FocusOut) \<noteq> NotifyInferior"
      "\<not> XFilterEvent s0 (focus_event FocusOut)"
      "find_window (windowlist s0) (xany_window (focus_event FocusOut)) = Some (0, sample_window)"
    by (simp_all add: s0_def sample_defs NotifyInferior_def)
  have d1: "X11_DispatchEvent s0 = Some s1"
    by (simp add: X11_DispatchEvent_def XNextEvent_def s1_def s0_def sample_video_def)
  have s1: "s1 = s0\<lparr>queue := [], reads := 1,
                    windowlist := [Some (sample_window\<lparr>pending_focus := PENDING_FOCUS_OUT,
                                                      pending_focus_time := 200\<rparr>)]\<rparr>"
    by (simp add: s1_def s0_def sample_defs dispatch_defs dispatch_FocusOut_def SDL_GetTicks_def
          NotifyInferior_def)
  have s2: "s2 = s1\<lparr>reads := 2\<rparr>"
    by (simp add: s2_def s1 s0_def sample_defs X11_HandleFocusChanges_def
          HandleFocusChanges_at_def SDL_GetTicks_def)
  have r: "reads s1 = 1" "reads s2 = 2" "clock s1 1 = 50"
    by (simp_all add: s2 s1 s0_def sample_video_def)
  have early: "\<forall>r. reads s1 \<le> r \<and> r < reads s2 \<longrightarrow>
                    0 < sint (clock s0 (reads s0) + PENDING_FOCUS_OUT_TIME s0 - clock s0 r)"
  proof (intro allI impI)
    fix k assume "reads s1 \<le> k \<and> k < reads s2"
    then have "k = 1" using r by simp
    then show "0 < sint (clock s0 (reads s0) + PENDING_FOCUS_OUT_TIME s0 - clock s0 k)"
      by (simp add: s0_def sample_video_def)
  qed
  have i: "xtype (focus_event FocusIn) = FocusIn"
      "xfocus_detail (focus_event FocusIn) \<noteq> NotifyInferior"
      "xany_window (focus_event FocusIn) = xany_window (focus_event FocusOut)"
      "\<not> XFilterEvent s2 (focus_event FocusIn)"
    by (simp_all add: s2 s1 s0_def sample_defs NotifyInferior_def)
  have d3: "X11_DispatchEvent (s2\<lparr>queue := focus_event FocusIn # []\<rparr>) = Some s3"
    by (simp add: X11_DispatchEvent_def XNextEvent_def s3_def)
  from focus_out_then_in [OF h d1 s2_def early i d3] have
    "windowlist s1 ! 0 =
       Some (sample_window\<lparr>pending_focus := PENDING_FOCUS_OUT,
               pending_focus_time := clock s0 (reads s0) + PENDING_FOCUS_OUT_TIME s0\<rparr>)"
    "windowlist s3 ! 0 =
       Some (sample_window\<lparr>pending_focus := PENDING_FOCUS_IN,
               pending_focus_time := clock s0 (reads s2) + PENDING_FOCUS_IN_TIME s0\<rparr>)"
    "Dispatching_FocusOut 0 \<notin> set (emitted s0 ((X11_HandleFocusChanges ^^ 3) s3))"
    by blast+
  then have
    "windowlist s1 ! 0 =
       Some (sample_window\<lparr>pending_focus := PENDING_FOCUS_OUT, pending_focus_time := 200\<rparr>)"
    "windowlist s3 ! 0 =
       Some (sample_window\<lparr>pending_focus := PENDING_FOCUS_IN, pending_focus_time := 300\<rparr>)"
    "Dispatching_FocusOut 0 \<notin> set (emitted s0 ((X11_HandleFocusChanges ^^ 3) s3))"
    by (simp_all add: r s0_def sample_video_def)
  moreover have "reads (X11_HandleFocusChanges s1) = 2" using r(2) by (simp add: s2_def)
  moreover have "X11_DispatchEvent ((X11_HandleFocusChanges s1)\<lparr>queue := [focus_event FocusIn]\<rparr>)
                   = Some s3"
    using d3 by (simp add: s2_def)
  ultimately show ?thesis
    using d1 r(1,3) unfolding s0_def by blast
qed

section \<open>Properties of the raw touch state machine\<close>

lemmas ev_defs = EV_SYN_def EV_KEY_def EV_ABS_def EV_MSC_def ABS_X_def ABS_Y_def
  ABS_PRESSURE_def ABS_MISC_def MSC_SERIAL_def BTN_TOUCH_def

text \<open>
  C5. A sync marker commits exactly one event: finger-down when the device is not down,
  motion when it is down and not marked up, finger-up when it is down and marked up.
  The two flags are not exclusive: a release sub-event sets \<open>up\<close> and leaves \<open>down\<close>
  as it is, and both stay set until the sync that commits the finger-up, which clears
  both. After a sync, \<open>down\<close> holds unless that sync committed the finger-up, and \<open>up\<close>
  holds only if it was set while the device was not down.
\<close>

theorem touch_sync_commits_one:
  assumes "ev_type ev = EV_SYN"
  shows "snd (touch_event tid ev data) =
           [if \<not> down data
            then SDL_SendFingerDown tid (finger data) True (touch_x data) (touch_y data)
                   (pressure data)
            else if \<not> up data
            then SDL_SendTouchMotion tid (finger data) False (touch_x data) (touch_y data)
                   (pressure data)
            else SDL_SendFingerDown tid (finger data) False (touch_x data) (touch_y data)
                   (pressure data)] \<and>
         down (fst (touch_event tid ev data)) = (\<not> (down data \<and> up data)) \<and>
         up (fst (touch_event tid ev data)) = (up data \<and> \<not> down data)"
  using assms by (simp add: touch_event_def ev_defs)

theorem touch_sync_commits_one_witness:
  "ev_type (raw_event EV_SYN 0 0) = EV_SYN \<and>
   touch_event 5 (raw_event EV_SYN 0 0) (idle_touch\<lparr>down := True, up := True, touch_x := 10\<rparr>) =
     (idle_touch, [SDL_SendFingerDown 5 0 False 10 (- 1) (- 1)]) \<and>
   snd (touch_event 5 (raw_event EV_SYN 0 0) idle_touch) =
     [SDL_SendFingerDown 5 0 True (- 1) (- 1) (- 1)] \<and>
   snd (touch_event 5 (raw_event EV_SYN 0 0) (idle_touch\<lparr>down := True\<rparr>)) =
     [SDL_SendTouchMotion 5 0 False (- 1) (- 1) (- 1)]"
proof -
  have h: "ev_type (raw_event EV_SYN 0 0) = EV_SYN" by (simp add: raw_event_def)
  from touch_sync_commits_one [OF h, of 5 "idle_touch\<lparr>down := True, up := True, touch_x := 10\<rparr>"]
       touch_sync_commits_one [OF h, of 5 idle_touch]
       touch_sync_commits_one [OF h, of 5 "idle_touch\<lparr>down := True\<rparr>"]
       h
  show ?thesis
    by (simp add: touch_event_def ev_defs raw_event_def idle_touch_def)
qed

text \<open>
  A release sub-event only sets \<open>up\<close>; no sub-event other than a sync marker commits
  anything, changes \<open>down\<close> or clears \<open>up\<close>.
\<close>

lemma touch_release_sets_up:
  assumes "(ev_type ev = EV_KEY \<and> ev_code ev = BTN_TOUCH \<or>
            ev_type ev = EV_ABS \<and> ev_code ev = ABS_MISC) \<and> ev_value ev = 0"
  shows "touch_event tid ev data = (data\<lparr>up := True\<rparr>, [])"
  using assms by (auto simp add: touch_event_def ev_defs)

lemma touch_flags_kept_until_sync:
  assumes "ev_type ev \<noteq> EV_SYN"
  shows "snd (touch_event tid ev data) = [] \<and>
         down (fst (touch_event tid ev data)) = down data \<and>
         (up data \<longrightarrow> up (fst (touch_event tid ev data)))"
  using assms by (simp add: touch_event_def)

theorem touch_flags_counterexample:
  "down (fst (touch_events 0 [raw_event EV_SYN 0 0, raw_event EV_KEY BTN_TOUCH 0] idle_touch)) \<and>
   up (fst (touch_events 0 [raw_event EV_SYN 0 0, raw_event EV_KEY BTN_TOUCH 0] idle_touch))"
  by (simp add: touch_event_def ev_defs raw_event_def idle_touch_def)

section \<open>Properties of the framebuffer driver\<close>

lemma added_append [simp]:
  "added_displays (xs @ ys) = added_displays xs @ added_displays ys"
  "added_modes (xs @ ys) = added_modes xs @ added_modes ys"
  by (simp_all add: added_displays_def added_modes_def)

lemmas init_defs =
  MSMFB_VideoInit_def VideoInit_check_def VideoInit_publish_def fb_do_def Let_def

text \<open>
  C7. For every rectangle array and every count within it (empty, clipped away or
  not), \<open>MSMFB_UpdateWindowFramebuffer\<close> returns \<open>0\<close>, leaves the driver data as it was
  and adds to the trace its entry line, one commit ioctl on the device and, only when
  that ioctl returned \<open>- 1\<close>, one warning.
\<close>

theorem update_commits_once:
  assumes "numrects \<le> int (length rects)"
  shows "\<exists>dev'. MSMFB_UpdateWindowFramebuffer env dev win rects numrects = Some (0, dev') \<and>
           trace dev' =
             trace dev @
             [SDL_LogDebug ''MSMFB_UpdateWindowFramebuffer: called'',
              Sys_ioctl (fb_fd (driverdata dev))
                (MSMFB_DISPLAY_COMMIT
                   \<lparr>commit_flags = MDP_DISPLAY_COMMIT_OVERLAY, wait_for_finish = 0\<rparr>)] @
             (if commit_result env = - 1
              then [SDL_LogWarn ''Failed to call ioctl MSMFB_DISPLAY_COMMIT''] else []) \<and>
           length (filter is_commit (trace dev')) = Suc (length (filter is_commit (trace dev))) \<and>
           driverdata dev' = driverdata dev"
  using assms
  by (simp add: MSMFB_UpdateWindowFramebuffer_def msmfb_display_commit_def fb_do_def Let_def)

theorem update_commits_once_witness:
  "(0 :: int) \<le> int (length ([] :: SDL_Rect list)) \<and>
   (1 :: int) \<le> int (length [\<lparr>rect_x = - 10, rect_y = 0, rect_w = 5, rect_h = 5\<rparr>]) \<and>
   MSMFB_UpdateWindowFramebuffer (sample_env sample_fix (- 1)) (sample_device 4096)
     \<lparr>window_w = 720, window_h = 1280\<rparr> [] 0 =
     Some (0, (sample_device 4096)
       \<lparr>trace := [SDL_LogDebug ''MSMFB_UpdateWindowFramebuffer: called'',
                  Sys_ioctl 3 (MSMFB_DISPLAY_COMMIT \<lparr>commit_flags = 1, wait_for_finish = 0\<rparr>),
                  SDL_LogWarn ''Failed to call ioctl MSMFB_DISPLAY_COMMIT'']\<rparr>) \<and>
   clip_rect \<lparr>window_w = 720, window_h = 1280\<rparr>
     \<lparr>rect_x = - 10, rect_y = 0, rect_w = 5, rect_h = 5\<rparr> = None \<and>
   map_option (\<lambda>r. length (filter is_commit (trace (snd r))))
     (MSMFB_UpdateWindowFramebuffer (sample_env sample_fix 0) (sample_device 4096)
        \<lparr>window_w = 720, window_h = 1280\<rparr>
        [\<lparr>rect_x = - 10, rect_y = 0, rect_w = 5, rect_h = 5\<rparr>] 1) = Some 1"
proof -
  have h0: "(0 :: int) \<le> int (length ([] :: SDL_Rect list))" by simp
  have h1: "(1 :: int) \<le> int (length [\<lparr>rect_x = - 10, rect_y = 0, rect_w = 5, rect_h = 5\<rparr>])"
    by simp
  from update_commits_once [OF h0, of "sample_env sample_fix (- 1)" "sample_device 4096"
         "\<lparr>window_w = 720, window_h = 1280\<rparr>"]
       update_commits_once [OF h1, of "sample_env sample_fix 0" "sample_device 4096"
         "\<lparr>window_w = 720, window_h = 1280\<rparr>"]
  show ?thesis
    by (auto simp add: sample_env_def sample_device_def clip_rect_def
          MDP_DISPLAY_COMMIT_OVERLAY_def)
qed

text \<open>
  C8. \<open>MSMFB_VideoInit\<close> returns \<open>0\<close> or \<open>- 1\<close>. When the device opened and both
  queries answered but the layout is not packed pixels in true colour, it returns \<open>- 1\<close>
  and registers neither a display nor a mode. When it returns \<open>0\<close>, both queries
  answered, the layout is packed pixels in true colour, and it has registered one display
  and one mode, the same for both: the queried \<open>xres\<close> by \<open>yres\<close>, 60 Hz, ABGR8888.
\<close>

theorem video_init_layout_and_mode:
  "(open_result env \<noteq> - 1 \<and> fscreeninfo env = Some fix \<and> vscreeninfo env = Some var \<and>
    (fix_type fix \<noteq> FB_TYPE_PACKED_PIXELS \<or> visual fix \<noteq> FB_VISUAL_TRUECOLOR) \<longrightarrow>
      fst (MSMFB_VideoInit env dev) = - 1 \<and>
      added_displays (trace (snd (MSMFB_VideoInit env dev))) = added_displays (trace dev) \<and>
      added_modes (trace (snd (MSMFB_VideoInit env dev))) = added_modes (trace dev)) \<and>
   (fst (MSMFB_VideoInit env dev) = 0 \<or> fst (MSMFB_VideoInit env dev) = - 1) \<and>
   (fst (MSMFB_VideoInit env dev) = 0 \<longrightarrow>
      (\<exists>fix var. fscreeninfo env = Some fix \<and> vscreeninfo env = Some var \<and>
         fix_type fix = FB_TYPE_PACKED_PIXELS \<and> visual fix = FB_VISUAL_TRUECOLOR \<and>
         added_displays (trace (snd (MSMFB_VideoInit env dev))) =
           added_displays (trace dev) @
           [\<lparr>mode_format = SDL_PIXELFORMAT_ABGR8888, mode_w = sint (xres var),
             mode_h = sint (yres var), refresh_rate = 60\<rparr>] \<and>
         added_modes (trace (snd (MSMFB_VideoInit env dev))) =
           added_modes (trace dev) @
           [\<lparr>mode_format = SDL_PIXELFORMAT_ABGR8888, mode_w = sint (xres var),
             mode_h = sint (yres var), refresh_rate = 60\<rparr>]))"
proof (intro conjI impI)
  assume a: "open_result env \<noteq> - 1 \<and> fscreeninfo env = Some fix \<and> vscreeninfo env = Some var \<and>
    (fix_type fix \<noteq> FB_TYPE_PACKED_PIXELS \<or> visual fix \<noteq> FB_VISUAL_TRUECOLOR)"
  then show "fst (MSMFB_VideoInit env dev) = - 1"
    by (auto simp add: init_defs)
  from a show "added_displays (trace (snd (MSMFB_VideoInit env dev))) = added_displays (trace dev)"
    by (auto simp add: init_defs added_displays_def)
  from a show "added_modes (trace (snd (MSMFB_VideoInit env dev))) = added_modes (trace dev)"
    by (auto simp add: init_defs added_modes_def)
next
  show "fst (MSMFB_VideoInit env dev) = 0 \<or> fst (MSMFB_VideoInit env dev) = - 1"
    by (simp add: init_defs)
next
  assume ok: "fst (MSMFB_VideoInit env dev) = 0"
  then obtain fx vr where fv: "fscreeninfo env = Some fx" "vscreeninfo env = Some vr"
    by (cases "fscreeninfo env"; cases "vscreeninfo env") (auto simp add: init_defs split: if_splits)
  with ok have l: "fix_type fx = FB_TYPE_PACKED_PIXELS" "visual fx = FB_VISUAL_TRUECOLOR"
      "open_result env \<noteq> - 1" "\<not> add_display_result env < 0"
    by (auto simp add: init_defs split: if_splits)
  with fv show "\<exists>fix var. fscreeninfo env = Some fix \<and> vscreeninfo env = Some var \<and>
         fix_type fix = FB_TYPE_PACKED_PIXELS \<and> visual fix = FB_VISUAL_TRUECOLOR \<and>
         added_displays (trace (snd (MSMFB_VideoInit env dev))) =
           added_displays (trace dev) @
           [\<lparr>mode_format = SDL_PIXELFORMAT_ABGR8888, mode_w = sint (xres var),
             mode_h = sint (yres var), refresh_rate = 60\<rparr>] \<and>
         added_modes (trace (snd (MSMFB_VideoInit env dev))) =
           added_modes (trace dev) @
           [\<lparr>mode_format = SDL_PIXELFORMAT_ABGR8888, mode_w = sint (xres var),
             mode_h = sint (yres var), refresh_rate = 60\<rparr>]"
    by (simp add: init_defs added_displays_def added_modes_def)
qed

theorem video_init_layout_and_mode_witness:
  "fst (MSMFB_VideoInit (sample_env (sample_fix\<lparr>visual := 0\<rparr>) 0) (sample_device 0)) = - 1 \<and>
   added_modes (trace (snd
     (MSMFB_VideoInit (sample_env (sample_fix\<lparr>visual := 0\<rparr>) 0) (sample_device 0)))) = [] \<and>
   fst (MSMFB_VideoInit (sample_env sample_fix 0) (sample_device 0)) = 0 \<and>
   added_modes (trace (snd (MSMFB_VideoInit (sample_env sample_fix 0) (sample_device 0)))) =
     [\<lparr>mode_format = SDL_PIXELFORMAT_ABGR8888, mode_w = 720, mode_h = 1280,
       refresh_rate = 60\<rparr>] \<and>
   added_displays (trace (snd (MSMFB_VideoInit (sample_env sample_fix 0) (sample_device 0)))) =
     [\<lparr>mode_format = SDL_PIXELFORMAT_ABGR8888, mode_w = 720, mode_h = 1280,
       refresh_rate = 60\<rparr>]"
  using video_init_layout_and_mode
          [of "sample_env (sample_fix\<lparr>visual := 0\<rparr>) 0" "sample_fix\<lparr>visual := 0\<rparr>" sample_var
              "sample_device 0"]
        video_init_layout_and_mode [of "sample_env sample_fix 0" sample_fix sample_var
              "sample_device 0"]
  by (simp add: init_defs sample_env_def sample_fix_def sample_var_def sample_device_def
        added_modes_def added_displays_def FB_TYPE_PACKED_PIXELS_def FB_VISUAL_TRUECOLOR_def)

text \<open>
  C9. Destroying the window framebuffer twice gives the state one call gives: the
  first call leaves the mapping pointer null, so the second changes nothing, and over
  the two calls the mapping is unmapped once if there was one and not at all otherwise.
\<close>

theorem destroy_idempotent:
  "MSMFB_DestroyWindowFramebuffer (MSMFB_DestroyWindowFramebuffer dev) =
     MSMFB_DestroyWindowFramebuffer dev \<and>
   fb_mem (driverdata (MSMFB_DestroyWindowFramebuffer dev)) = 0 \<and>
   length (filter is_munmap
     (trace (MSMFB_DestroyWindowFramebuffer (MSMFB_DestroyWindowFramebuffer dev)))) =
     length (filter is_munmap (trace dev)) + (if fb_mem (driverdata dev) \<noteq> 0 then 1 else 0)"
  by (simp add: MSMFB_DestroyWindowFramebuffer_def fb_do_def Let_def)

theorem destroy_idempotent_witness:
  "MSMFB_DestroyWindowFramebuffer (MSMFB_DestroyWindowFramebuffer (sample_device 4096)) =
     MSMFB_DestroyWindowFramebuffer (sample_device 4096) \<and>
   trace (MSMFB_DestroyWindowFramebuffer (MSMFB_DestroyWindowFramebuffer (sample_device 4096))) =
     [Sys_munmap 4096 8388608, SDL_LogDebug (''unmapped framebuffer mem'' @ [CHR 0x0A])]"
  using destroy_idempotent [of "sample_device 4096"]
  by (simp add: MSMFB_DestroyWindowFramebuffer_def fb_do_def Let_def sample_device_def
        sample_fix_def)

end
